theory Spec2Isabelle
  imports Main
begin

section \<open>Python values, exceptions and the external world\<close>

text \<open>
  The repository is glue code around four libraries (redis, pymysql, psycopg2 and
  sshtunnel/paramiko).  Nothing is known about what those libraries answer, so every
  call into them is answered by a \<^emph>\<open>world\<close>: a family of functions from the history of
  the run (the trace of everything done so far) and the call to its outcome.  All
  theorems hold for every world.
\<close>

type_synonym handle = nat

text \<open>The values a configuration dictionary holds (\<open>Dict[str, Union[str, int]]\<close>, and
  \<open>None\<close> for absent passwords).\<close>

datatype pyval = PNone | PStr string | PInt int

type_synonym config = "string \<rightharpoonup> pyval"

type_synonym row = "(string \<times> pyval) list"

text \<open>The texts of the exceptions the repository raises itself (the source writes them in
  Chinese; only which one it is matters here).\<close>

datatype msg =
    Missing_required_fields   \<comment> \<open>database/__init__.py line 139\<close>
  | Ssh_fields_required       \<comment> \<open>lines 61 and 142\<close>
  | Redis_host_required       \<comment> \<open>line 64\<close>
  | Unsupported_db_type string  \<comment> \<open>line 195\<close>
  | Redis_ping_failed         \<comment> \<open>line 98\<close>
  | Db_not_connected          \<comment> \<open>lines 240 and 257\<close>
  | Invalid_literal           \<comment> \<open>\<open>int()\<close> of a string that is no number\<close>
  | Library_message           \<comment> \<open>a text chosen by a library\<close>

text \<open>
  Exception classes, as far as the \<open>except\<close> clauses of the source tell them apart.
  Every constructor stands for a class and its subclasses; all are subclasses of
  \<open>Exception\<close>.  \<open>ConnectionError\<close> is Python's builtin (a subclass of \<open>OSError\<close>): the
  source imports no other class of that name, and \<open>redis.ConnectionError\<close> is a
  \<open>RedisError\<close>.
\<close>

datatype exn =
    RedisError                \<comment> \<open>\<open>redis.RedisError\<close>\<close>
  | BaseSSHTunnelForwarderError
  | SSHException              \<comment> \<open>\<open>paramiko.ssh_exception.SSHException\<close>\<close>
  | PyMySQLError              \<comment> \<open>\<open>pymysql.Error\<close>\<close>
  | Psycopg2Error             \<comment> \<open>\<open>psycopg2.Error\<close>\<close>
  | ValueError msg
  | ConnectionError msg
  | KeyError string
  | AttributeError
  | TypeError
  | OtherException            \<comment> \<open>any other subclass of \<open>Exception\<close>, e.g. \<open>OSError\<close>\<close>

text \<open>Calls into the libraries.  An object a library hands out (a tunnel, a connection, a
  cursor, a key) is named by a handle.\<close>

datatype call =
    RSAKey_from_private_key_file pyval pyval
  | SSHTunnelForwarder_new pyval pyval pyval pyval "handle option" pyval int
      \<comment> \<open>ssh host, ssh port, user, password, key, remote host, remote port\<close>
  | Tunnel_start handle
  | Tunnel_local_bind_port handle
  | Tunnel_is_active handle
  | Tunnel_stop handle
  | Redis_new pyval int int pyval
  | Redis_ping handle
  | Redis_close handle
  | Pymysql_connect pyval pyval pyval pyval pyval string bool
      \<comment> \<open>host, port, user, password, database, charset, DictCursor\<close>
  | Psycopg2_connect pyval int pyval pyval pyval
  | Conn_set_autocommit handle bool
  | Conn_open handle
  | Conn_closed handle
  | Conn_cursor handle
  | Conn_commit handle
  | Conn_rollback handle
  | Conn_close handle
  | Cursor_execute handle string "pyval list option"
  | Cursor_fetchall handle
  | Cursor_rowcount handle
  | Cursor_lastrowid handle
  | Cursor_close handle

datatype level = Info | Warning | Exception

text \<open>What is logged: the kind of the message and the values formatted into it.\<close>

datatype log_msg =
    Tunnel_established int
  | Tunnel_closed
  | Tunnel_close_failed exn
  | Redis_already_connected
  | Redis_connected
  | Redis_closed
  | Redis_close_failed exn
  | Connect_failed exn
  | Db_already_connected
  | Db_connected string
  | Db_closed string
  | Db_close_failed string exn
  | Query_failed exn string
  | Update_failed exn string

text \<open>Methods whose invocation is recorded in the trace.  The record is not an effect of
  the program; it makes the number of invocations a property of the trace.\<close>

datatype meth = Redis_disconnect | DB_disconnect

datatype event = Ext call | Log level log_msg | Invoked meth

type_synonym trace = "event list"

record world =
  raises :: "trace \<Rightarrow> call \<Rightarrow> exn option"
  bool_of :: "trace \<Rightarrow> call \<Rightarrow> bool"
  int_of :: "trace \<Rightarrow> call \<Rightarrow> int"
  rows_of :: "trace \<Rightarrow> call \<Rightarrow> row list"

section \<open>Programs: state, trace and exceptions\<close>

text \<open>A method of an object with fields \<open>'s\<close> takes the fields and the trace and gives
  back either the exception it raises or its value, with the new fields and trace.\<close>

type_synonym ('s, 'a) prog = "'s \<Rightarrow> trace \<Rightarrow> (exn + 'a) \<times> 's \<times> trace"

definition ret :: "'a \<Rightarrow> ('s, 'a) prog" where
  "ret x = (\<lambda>s t. (Inr x, s, t))"

definition raise :: "exn \<Rightarrow> ('s, 'a) prog" where
  "raise e = (\<lambda>s t. (Inl e, s, t))"

definition then_do :: "('s, 'a) prog \<Rightarrow> ('a \<Rightarrow> ('s, 'b) prog) \<Rightarrow> ('s, 'b) prog" where
  "then_do m f = (\<lambda>s t. case m s t of
       (Inl e, s1, t1) \<Rightarrow> (Inl e, s1, t1)
     | (Inr x, s1, t1) \<Rightarrow> f x s1 t1)"

definition get :: "('s, 's) prog" where
  "get = (\<lambda>s t. (Inr s, s, t))"

definition upd :: "('s \<Rightarrow> 's) \<Rightarrow> ('s, unit) prog" where
  "upd f = (\<lambda>s t. (Inr (), f s, t))"

definition log :: "level \<Rightarrow> log_msg \<Rightarrow> ('s, unit) prog" where
  "log l m = (\<lambda>s t. (Inr (), s, t @ [Log l m]))"

definition invoked :: "meth \<Rightarrow> ('s, unit) prog" where
  "invoked m = (\<lambda>s t. (Inr (), s, t @ [Invoked m]))"

text \<open>A library call: it is recorded whether it raises or not.  A call that creates an
  object returns the position of its own record in the trace as the handle, so two
  objects never share one.\<close>

definition ext :: "world \<Rightarrow> call \<Rightarrow> ('s, unit) prog" where
  "ext w c = (\<lambda>s t. case raises w t c of
       Some e \<Rightarrow> (Inl e, s, t @ [Ext c])
     | None \<Rightarrow> (Inr (), s, t @ [Ext c]))"

definition ext_new :: "world \<Rightarrow> call \<Rightarrow> ('s, handle) prog" where
  "ext_new w c = (\<lambda>s t. case raises w t c of
       Some e \<Rightarrow> (Inl e, s, t @ [Ext c])
     | None \<Rightarrow> (Inr (length t), s, t @ [Ext c]))"

text \<open>Reading a plain attribute (\<open>is_active\<close>, \<open>open\<close>, \<open>closed\<close>, \<open>rowcount\<close>,
  \<open>lastrowid\<close>): answered by the world, neither raising nor recorded.\<close>

definition read_bool :: "world \<Rightarrow> call \<Rightarrow> ('s, bool) prog" where
  "read_bool w c = (\<lambda>s t. (Inr (bool_of w t c), s, t))"

definition read_int :: "world \<Rightarrow> call \<Rightarrow> ('s, int) prog" where
  "read_int w c = (\<lambda>s t. (Inr (int_of w t c), s, t))"

text \<open>\<open>try: body except (classes) as e: handler\<close>\<close>

definition try_except ::
  "('s, 'a) prog \<Rightarrow> (exn \<Rightarrow> bool) \<Rightarrow> (exn \<Rightarrow> ('s, 'a) prog) \<Rightarrow> ('s, 'a) prog" where
  "try_except body caught handler = (\<lambda>s t. case body s t of
       (Inl e, s1, t1) \<Rightarrow> (if caught e then handler e s1 t1 else (Inl e, s1, t1))
     | (Inr x, s1, t1) \<Rightarrow> (Inr x, s1, t1))"

text \<open>\<open>try: body finally: fin\<close>.  An exception of \<open>fin\<close> replaces the outcome of the
  body.\<close>

definition try_finally :: "('s, 'a) prog \<Rightarrow> ('s, unit) prog \<Rightarrow> ('s, 'a) prog" where
  "try_finally body fin = (\<lambda>s t. case body s t of
       (r, s1, t1) \<Rightarrow> (case fin s1 t1 of
           (Inl e, s2, t2) \<Rightarrow> (Inl e, s2, t2)
         | (Inr _, s2, t2) \<Rightarrow> (r, s2, t2)))"

text \<open>\<open>with m as v: body\<close>, for a context manager \<open>m\<close> whose \<open>__exit__\<close> returns
  \<open>None\<close> (all of them here): if \<open>m.__enter__()\<close> raises, \<open>__exit__\<close> is not called;
  otherwise it is called when the body is left, and an exception of the body goes on.\<close>

definition with_stmt ::
  "('m \<Rightarrow> ('s, 'v) prog) \<Rightarrow> ('m \<Rightarrow> ('s, unit) prog) \<Rightarrow> 'm \<Rightarrow> ('v \<Rightarrow> ('s, 'a) prog)
     \<Rightarrow> ('s, 'a) prog" where
  "with_stmt enter exit m body = then_do (enter m) (\<lambda>v. try_finally (body v) (exit m))"

text \<open>\<open>except Exception\<close>: every class of \<^typ>\<open>exn\<close>.\<close>

definition any_exception :: "exn \<Rightarrow> bool" where
  "any_exception e = True"

subsection \<open>Dictionaries and truth values\<close>

definition truthy :: "pyval \<Rightarrow> bool" where
  "truthy v = (case v of PNone \<Rightarrow> False | PStr s \<Rightarrow> s \<noteq> [] | PInt n \<Rightarrow> n \<noteq> 0)"

text \<open>\<open>d.get(k)\<close> and \<open>d.get(k, default)\<close>\<close>

definition dict_get :: "config \<Rightarrow> string \<Rightarrow> pyval" where
  "dict_get d k = (case d k of None \<Rightarrow> PNone | Some v \<Rightarrow> v)"

definition dict_get_default :: "config \<Rightarrow> string \<Rightarrow> pyval \<Rightarrow> pyval" where
  "dict_get_default d k v0 = (case d k of None \<Rightarrow> v0 | Some v \<Rightarrow> v)"

text \<open>\<open>d[k]\<close>\<close>

definition dict_item :: "config \<Rightarrow> string \<Rightarrow> exn + pyval" where
  "dict_item d k = (case d k of None \<Rightarrow> Inl (KeyError k) | Some v \<Rightarrow> Inr v)"

definition item :: "config \<Rightarrow> string \<Rightarrow> ('s, pyval) prog" where
  "item d k = (case dict_item d k of Inl e \<Rightarrow> raise e | Inr v \<Rightarrow> ret v)"

text \<open>\<open>k in d\<close>\<close>

definition has_key :: "config \<Rightarrow> string \<Rightarrow> bool" where
  "has_key d k = (d k \<noteq> None)"

subsection \<open>Strings\<close>

text \<open>A \<^typ>\<open>char\<close> is a code point below 256.  On those, \<open>str.isspace\<close> holds for
  9 to 13, 28 to 32, 133 and 160, and \<open>str.lower\<close> moves A to Z and the capital
  letters 192 to 222 (without the multiplication sign 215) up by 32.\<close>

definition py_isspace :: "char \<Rightarrow> bool" where
  "py_isspace c = (let n = of_char c :: nat in
     (9 \<le> n \<and> n \<le> 13) \<or> (28 \<le> n \<and> n \<le> 32) \<or> n = 133 \<or> n = 160)"

definition py_lower_char :: "char \<Rightarrow> char" where
  "py_lower_char c = (let n = of_char c :: nat in
     if (65 \<le> n \<and> n \<le> 90) \<or> (192 \<le> n \<and> n \<le> 222 \<and> n \<noteq> 215)
     then char_of (n + 32) else c)"

definition py_lower :: "string \<Rightarrow> string" where
  "py_lower s = map py_lower_char s"

definition py_strip :: "string \<Rightarrow> string" where
  "py_strip s = rev (dropWhile py_isspace (rev (dropWhile py_isspace s)))"

definition startswith :: "string \<Rightarrow> string \<Rightarrow> bool" where
  "startswith s p = (take (length p) s = p)"

text \<open>\<open>int(v)\<close>: an int is returned as it is; a string is stripped, may carry a sign, and
  is a run of decimal digits with single underscores between digits; \<open>None\<close> is a
  \<open>TypeError\<close>.\<close>

definition is_digit :: "char \<Rightarrow> bool" where
  "is_digit c = (let n = of_char c :: nat in 48 \<le> n \<and> n \<le> 57)"

fun digits_value :: "nat \<Rightarrow> bool \<Rightarrow> string \<Rightarrow> nat option" where
  "digits_value acc after_digit [] = (if after_digit then Some acc else None)"
| "digits_value acc after_digit (c # cs) =
     (if is_digit c then digits_value (10 * acc + (of_char c - 48)) True cs
      else if c = CHR ''_'' \<and> after_digit \<and> cs \<noteq> [] then digits_value acc False cs
      else None)"

definition int_of_string :: "string \<Rightarrow> int option" where
  "int_of_string s = (case py_strip s of
       [] \<Rightarrow> None
     | c # cs \<Rightarrow>
         if c = CHR ''-'' then map_option (\<lambda>n. - int n) (digits_value 0 False cs)
         else if c = CHR ''+'' then map_option int (digits_value 0 False cs)
         else map_option int (digits_value 0 False (c # cs)))"

definition py_int :: "pyval \<Rightarrow> exn + int" where
  "py_int v = (case v of
       PInt n \<Rightarrow> Inr n
     | PStr s \<Rightarrow> (case int_of_string s of
           None \<Rightarrow> Inl (ValueError Invalid_literal) | Some n \<Rightarrow> Inr n)
     | PNone \<Rightarrow> Inl TypeError)"

text \<open>\<open>v.lower()\<close> on a configuration value: only a string has the method.\<close>

definition lower_of :: "pyval \<Rightarrow> exn + string" where
  "lower_of v = (case v of PStr s \<Rightarrow> Inr (py_lower s) | _ \<Rightarrow> Inl AttributeError)"

text \<open>A computation without effects that may fail, used as a step of a program.\<close>

definition lift :: "exn + 'a \<Rightarrow> ('s, 'a) prog" where
  "lift r = (case r of Inl e \<Rightarrow> raise e | Inr v \<Rightarrow> ret v)"

section \<open>database/__init__.py: SSHTunnelManager\<close>

record ssh_tunnel_manager =
  ssh_config :: config
  tunnel :: "handle option"

text \<open>\<open>self.tunnel.local_bind_port\<close>: a property of the forwarder that raises when the
  tunnel is not up.\<close>

definition local_bind_port :: "world \<Rightarrow> ('a ssh_tunnel_manager_scheme, int) prog" where
  "local_bind_port w =
     then_do get (\<lambda>s. case tunnel s of
         None \<Rightarrow> raise AttributeError
       | Some th \<Rightarrow>
           then_do (ext w (Tunnel_local_bind_port th)) (\<lambda>_.
           read_int w (Tunnel_local_bind_port th)))"

definition setup_ssh_tunnel ::
  "world \<Rightarrow> pyval \<Rightarrow> int \<Rightarrow> ('a ssh_tunnel_manager_scheme, pyval \<times> int) prog" where
  "setup_ssh_tunnel w remote_host remote_port =
     then_do get (\<lambda>s.
     then_do (if truthy (dict_get (ssh_config s) ''ssh_pkey_path'')
              then then_do (item (ssh_config s) ''ssh_pkey_path'') (\<lambda>path.
                   then_do (ext_new w (RSAKey_from_private_key_file path
                                (dict_get (ssh_config s) ''ssh_pkey_password''))) (\<lambda>k.
                   ret (Some k)))
              else ret None) (\<lambda>pkey.
     then_do (item (ssh_config s) ''ssh_host'') (\<lambda>h.
     then_do (item (ssh_config s) ''ssh_port'') (\<lambda>p.
     then_do (item (ssh_config s) ''ssh_username'') (\<lambda>u.
     then_do (item (ssh_config s) ''ssh_password'') (\<lambda>pw.
     then_do (ext_new w (SSHTunnelForwarder_new h p u pw pkey remote_host remote_port)) (\<lambda>th.
     then_do (upd (\<lambda>s. s\<lparr>tunnel := Some th\<rparr>)) (\<lambda>_.
     then_do (ext w (Tunnel_start th)) (\<lambda>_.
     then_do (local_bind_port w) (\<lambda>port.
     then_do (log Info (Tunnel_established port)) (\<lambda>_.
     then_do (local_bind_port w) (\<lambda>port'.
     ret (PStr ''127.0.0.1'', port')))))))))))))"

definition stop_tunnel :: "world \<Rightarrow> handle \<Rightarrow> ('a ssh_tunnel_manager_scheme, unit) prog" where
  "stop_tunnel w th =
     try_except
       (then_do (ext w (Tunnel_stop th)) (\<lambda>_. log Info Tunnel_closed))
       any_exception
       (\<lambda>e. log Exception (Tunnel_close_failed e))"

definition close_ssh_tunnel :: "world \<Rightarrow> ('a ssh_tunnel_manager_scheme, unit) prog" where
  "close_ssh_tunnel w =
     then_do get (\<lambda>s. case tunnel s of
         None \<Rightarrow> ret ()
       | Some th \<Rightarrow>
           then_do (read_bool w (Tunnel_is_active th)) (\<lambda>active.
           if active
           then then_do (stop_tunnel w th) (\<lambda>_. upd (\<lambda>s. s\<lparr>tunnel := None\<rparr>))
           else ret ()))"

section \<open>database/__init__.py: RedisConnector\<close>

record redis_config =
  rc_host :: pyval
  rc_port :: int
  rc_db :: int
  rc_password :: pyval

record redis_connector = ssh_tunnel_manager +
  redis_use_ssh :: bool
  redis_config :: redis_config
  redis_conn :: "handle option"
  redis_is_connected :: bool

definition RedisConnector_init :: "config \<Rightarrow> bool \<Rightarrow> (unit, redis_connector) prog" where
  "RedisConnector_init config use_ssh =
     (if use_ssh \<and> \<not> list_all (has_key config) [''ssh_host'', ''ssh_username'']
      then raise (ValueError Ssh_fields_required)
      else if \<not> truthy (dict_get config ''redis_host'')
      then raise (ValueError Redis_host_required)
      else
        then_do (item config ''redis_host'') (\<lambda>h.
        then_do (lift (py_int (dict_get_default config ''redis_port'' (PInt 6379)))) (\<lambda>p.
        then_do (lift (py_int (dict_get_default config ''redis_db'' (PInt 0)))) (\<lambda>d.
        ret \<lparr>ssh_config = config, tunnel = None, redis_use_ssh = use_ssh,
             redis_config = \<lparr>rc_host = h, rc_port = p, rc_db = d,
                              rc_password = dict_get config ''redis_password''\<rparr>,
             redis_conn = None, redis_is_connected = False\<rparr>))))"

definition RedisConnector_disconnect :: "world \<Rightarrow> (redis_connector, unit) prog" where
  "RedisConnector_disconnect w =
     then_do (invoked Redis_disconnect) (\<lambda>_.
     then_do get (\<lambda>s.
     then_do (case redis_conn s of
                None \<Rightarrow> ret ()
              | Some h \<Rightarrow>
                  then_do (try_except
                             (then_do (ext w (Redis_close h)) (\<lambda>_. log Info Redis_closed))
                             any_exception
                             (\<lambda>e. log Exception (Redis_close_failed e))) (\<lambda>_.
                  upd (\<lambda>s. s\<lparr>redis_conn := None\<rparr>))) (\<lambda>_.
     then_do (if redis_use_ssh s then close_ssh_tunnel w else ret ()) (\<lambda>_.
     upd (\<lambda>s. s\<lparr>redis_is_connected := False\<rparr>)))))"

definition redis_caught :: "exn \<Rightarrow> bool" where
  "redis_caught e = (e = RedisError \<or> e = BaseSSHTunnelForwarderError \<or> e = SSHException)"

text \<open>\<open>self.redis_conn.ping()\<close>\<close>

definition redis_ping :: "world \<Rightarrow> (redis_connector, bool) prog" where
  "redis_ping w =
     then_do get (\<lambda>s. case redis_conn s of
         None \<Rightarrow> raise AttributeError
       | Some h \<Rightarrow> then_do (ext w (Redis_ping h)) (\<lambda>_. read_bool w (Redis_ping h)))"

text \<open>The body of the \<open>try\<close> in \<open>connect\<close> (lines 85 to 101).\<close>

definition RedisConnector_connect_body :: "world \<Rightarrow> (redis_connector, unit) prog" where
  "RedisConnector_connect_body w =
     then_do get (\<lambda>s.
     then_do (if redis_use_ssh s
              then then_do (setup_ssh_tunnel w (rc_host (redis_config s))
                              (rc_port (redis_config s))) (\<lambda>(local_host, local_port).
                   upd (\<lambda>s. s\<lparr>redis_config :=
                          (redis_config s)\<lparr>rc_host := local_host, rc_port := local_port\<rparr>\<rparr>))
              else ret ()) (\<lambda>_.
     then_do get (\<lambda>s.
     then_do (ext_new w (Redis_new (rc_host (redis_config s)) (rc_port (redis_config s))
                           (rc_db (redis_config s)) (rc_password (redis_config s)))) (\<lambda>h.
     then_do (upd (\<lambda>s. s\<lparr>redis_conn := Some h\<rparr>)) (\<lambda>_.
     then_do (redis_ping w) (\<lambda>pong.
     then_do (if \<not> pong then raise (ConnectionError Redis_ping_failed) else ret ()) (\<lambda>_.
     then_do (upd (\<lambda>s. s\<lparr>redis_is_connected := True\<rparr>)) (\<lambda>_.
     log Info Redis_connected))))))))"

definition RedisConnector_connect :: "world \<Rightarrow> (redis_connector, unit) prog" where
  "RedisConnector_connect w =
     then_do get (\<lambda>s.
     if redis_is_connected s then log Warning Redis_already_connected
     else try_except (RedisConnector_connect_body w) redis_caught
            (\<lambda>e. then_do (log Exception (Connect_failed e)) (\<lambda>_.
                 then_do (RedisConnector_disconnect w) (\<lambda>_.
                 raise e))))"

definition RedisConnector_enter :: "world \<Rightarrow> (redis_connector, handle option) prog" where
  "RedisConnector_enter w =
     then_do (RedisConnector_connect w) (\<lambda>_.
     then_do get (\<lambda>s. ret (redis_conn s)))"

definition RedisConnector_exit :: "world \<Rightarrow> (redis_connector, unit) prog" where
  "RedisConnector_exit w = RedisConnector_disconnect w"

section \<open>database/__init__.py: DBConnector\<close>

record db_config =
  dc_type :: string
  dc_host :: pyval
  dc_port :: int
  dc_user :: pyval
  dc_password :: pyval
  dc_name :: pyval

record db_connector = ssh_tunnel_manager +
  db_use_ssh :: bool
  db_config :: db_config
  conn :: "handle option"
  db_is_connected :: bool

definition required :: "string list" where
  "required = [''db_type'', ''db_host'', ''db_port'', ''db_user'', ''db_name'']"

definition DBConnector_init :: "config \<Rightarrow> bool \<Rightarrow> (unit, db_connector) prog" where
  "DBConnector_init config use_ssh =
     (if list_ex (\<lambda>field. \<not> has_key config field) required
      then raise (ValueError Missing_required_fields)
      else if use_ssh \<and> \<not> list_all (has_key config) [''ssh_host'', ''ssh_username'']
      then raise (ValueError Ssh_fields_required)
      else
        then_do (item config ''db_type'') (\<lambda>ty.
        then_do (lift (lower_of ty)) (\<lambda>ty'.
        then_do (item config ''db_host'') (\<lambda>h.
        then_do (item config ''db_port'') (\<lambda>p.
        then_do (lift (py_int p)) (\<lambda>p'.
        then_do (item config ''db_user'') (\<lambda>u.
        then_do (item config ''db_name'') (\<lambda>n.
        ret \<lparr>ssh_config = config, tunnel = None, db_use_ssh = use_ssh,
             db_config = \<lparr>dc_type = ty', dc_host = h, dc_port = p', dc_user = u,
                           dc_password = dict_get config ''db_password'', dc_name = n\<rparr>,
             conn = None, db_is_connected = False\<rparr>))))))))"

text \<open>Lines 211 to 224: the connection is closed when the client says it is still open.\<close>

definition close_conn :: "world \<Rightarrow> string \<Rightarrow> handle \<Rightarrow> (db_connector, unit) prog" where
  "close_conn w ty h =
     try_except
       (then_do (if ty = ''mysql''
                 then then_do (read_bool w (Conn_open h)) (\<lambda>is_open.
                      if is_open then ext w (Conn_close h) else ret ())
                 else if ty = ''postgresql''
                 then then_do (read_bool w (Conn_closed h)) (\<lambda>is_closed.
                      if \<not> is_closed then ext w (Conn_close h) else ret ())
                 else ret ()) (\<lambda>_.
        log Info (Db_closed ty)))
       any_exception
       (\<lambda>e. log Exception (Db_close_failed ty e))"

definition DBConnector_disconnect :: "world \<Rightarrow> (db_connector, unit) prog" where
  "DBConnector_disconnect w =
     then_do (invoked DB_disconnect) (\<lambda>_.
     then_do get (\<lambda>s.
     then_do (case conn s of
                None \<Rightarrow> ret ()
              | Some h \<Rightarrow>
                  then_do (close_conn w (dc_type (db_config s)) h) (\<lambda>_.
                  upd (\<lambda>s. s\<lparr>conn := None\<rparr>))) (\<lambda>_.
     then_do (case tunnel s of
                None \<Rightarrow> ret ()
              | Some th \<Rightarrow>
                  then_do (read_bool w (Tunnel_is_active th)) (\<lambda>active.
                  if active
                  then then_do (stop_tunnel w th) (\<lambda>_. upd (\<lambda>s. s\<lparr>tunnel := None\<rparr>))
                  else ret ())) (\<lambda>_.
     upd (\<lambda>s. s\<lparr>db_is_connected := False\<rparr>)))))"

definition db_connect_caught :: "exn \<Rightarrow> bool" where
  "db_connect_caught e =
     (e = PyMySQLError \<or> e = Psycopg2Error \<or> (case e of ValueError _ \<Rightarrow> True | _ \<Rightarrow> False))"

definition db_query_caught :: "exn \<Rightarrow> bool" where
  "db_query_caught e = (e = PyMySQLError \<or> e = Psycopg2Error)"

text \<open>\<open>with self.conn.cursor() as cursor: body\<close>.  Leaving the block closes the cursor.\<close>

definition cursor_exit :: "world \<Rightarrow> handle \<Rightarrow> ('s, unit) prog" where
  "cursor_exit w c = ext w (Cursor_close c)"

definition with_cursor ::
  "world \<Rightarrow> (handle \<Rightarrow> (db_connector, 'a) prog) \<Rightarrow> (db_connector, 'a) prog" where
  "with_cursor w body =
     then_do get (\<lambda>s. case conn s of
         None \<Rightarrow> raise AttributeError
       | Some h \<Rightarrow>
           then_do (ext_new w (Conn_cursor h)) (\<lambda>c.
           with_stmt ret (cursor_exit w) c body))"

text \<open>The body of the \<open>try\<close> in \<open>connect\<close> (lines 164 to 202).\<close>

definition DBConnector_connect_body :: "world \<Rightarrow> (db_connector, unit) prog" where
  "DBConnector_connect_body w =
     then_do get (\<lambda>s.
     then_do (if db_use_ssh s
              then setup_ssh_tunnel w (dc_host (db_config s)) (dc_port (db_config s))
              else ret (dc_host (db_config s), dc_port (db_config s)))
       (\<lambda>(local_host, local_port).
     then_do (if dc_type (db_config s) = ''mysql''
              then then_do (ext_new w (Pymysql_connect local_host (PInt local_port)
                              (dc_user (db_config s)) (dc_password (db_config s))
                              (dc_name (db_config s)) ''utf8mb4'' True)) (\<lambda>h.
                   upd (\<lambda>s. s\<lparr>conn := Some h\<rparr>))
              else if dc_type (db_config s) = ''postgresql''
              then then_do (ext_new w (Psycopg2_connect local_host local_port
                              (dc_user (db_config s)) (dc_password (db_config s))
                              (dc_name (db_config s)))) (\<lambda>h.
                   then_do (upd (\<lambda>s. s\<lparr>conn := Some h\<rparr>)) (\<lambda>_.
                   ext w (Conn_set_autocommit h False)))
              else raise (ValueError (Unsupported_db_type (dc_type (db_config s))))) (\<lambda>_.
     then_do (with_cursor w (\<lambda>c. ext w (Cursor_execute c ''SELECT 1'' None))) (\<lambda>_.
     then_do (upd (\<lambda>s. s\<lparr>db_is_connected := True\<rparr>)) (\<lambda>_.
     log Info (Db_connected (dc_type (db_config s))))))))"

definition DBConnector_connect :: "world \<Rightarrow> (db_connector, unit) prog" where
  "DBConnector_connect w =
     then_do get (\<lambda>s.
     if db_is_connected s then log Warning Db_already_connected
     else try_except (DBConnector_connect_body w) db_connect_caught
            (\<lambda>e. then_do (log Exception (Connect_failed e)) (\<lambda>_.
                 then_do (DBConnector_disconnect w) (\<lambda>_.
                 raise e))))"

text \<open>\<open>params or ()\<close>\<close>

definition params_or_empty :: "pyval list option \<Rightarrow> pyval list" where
  "params_or_empty params = (case params of None \<Rightarrow> [] | Some ps \<Rightarrow> ps)"

definition fetchall :: "world \<Rightarrow> handle \<Rightarrow> ('s, row list) prog" where
  "fetchall w c =
     then_do (ext w (Cursor_fetchall c)) (\<lambda>_.
     (\<lambda>s t. (Inr (rows_of w t (Cursor_fetchall c)), s, t)))"

text \<open>The handler of both \<open>execute_query\<close> and \<open>execute_update\<close> after logging.\<close>

definition rollback_and_reraise :: "world \<Rightarrow> exn \<Rightarrow> (db_connector, 'a) prog" where
  "rollback_and_reraise w e =
     then_do get (\<lambda>s.
     then_do (case conn s of None \<Rightarrow> ret () | Some h \<Rightarrow> ext w (Conn_rollback h)) (\<lambda>_.
     raise e))"

text \<open>The bodies of the \<open>try\<close> in \<open>execute_query\<close> (lines 243 to 245) and in
  \<open>execute_update\<close> (lines 260 to 264).\<close>

definition query_block ::
  "world \<Rightarrow> string \<Rightarrow> pyval list option \<Rightarrow> (db_connector, row list) prog" where
  "query_block w sql params =
     with_cursor w (\<lambda>c.
       then_do (ext w (Cursor_execute c sql (Some (params_or_empty params)))) (\<lambda>_.
       fetchall w c))"

definition update_block ::
  "world \<Rightarrow> string \<Rightarrow> pyval list option \<Rightarrow> (db_connector, int) prog" where
  "update_block w sql params =
     with_cursor w (\<lambda>c.
       then_do (ext w (Cursor_execute c sql (Some (params_or_empty params)))) (\<lambda>_.
       then_do (read_int w (Cursor_rowcount c)) (\<lambda>row_count.
       then_do get (\<lambda>s.
       then_do (case conn s of
                  None \<Rightarrow> raise AttributeError
                | Some h \<Rightarrow> ext w (Conn_commit h)) (\<lambda>_.
       ret row_count)))))"

definition execute_query ::
  "world \<Rightarrow> string \<Rightarrow> pyval list option \<Rightarrow> (db_connector, row list) prog" where
  "execute_query w sql params =
     then_do get (\<lambda>s.
     if \<not> db_is_connected s \<or> conn s = None then raise (ConnectionError Db_not_connected)
     else try_except (query_block w sql params) db_query_caught
            (\<lambda>e. then_do (log Exception (Query_failed e sql)) (\<lambda>_.
                 rollback_and_reraise w e)))"

definition execute_update ::
  "world \<Rightarrow> string \<Rightarrow> pyval list option \<Rightarrow> (db_connector, int) prog" where
  "execute_update w sql params =
     then_do get (\<lambda>s.
     if \<not> db_is_connected s \<or> conn s = None then raise (ConnectionError Db_not_connected)
     else try_except (update_block w sql params) db_query_caught
            (\<lambda>e. then_do (log Exception (Update_failed e sql)) (\<lambda>_.
                 rollback_and_reraise w e)))"

definition DBConnector_enter :: "world \<Rightarrow> (db_connector, db_connector) prog" where
  "DBConnector_enter w = then_do (DBConnector_connect w) (\<lambda>_. get)"

definition DBConnector_exit :: "world \<Rightarrow> (db_connector, unit) prog" where
  "DBConnector_exit w = DBConnector_disconnect w"

text \<open>The sessions under \<open>with\<close> (lines 317 and 323): \<open>with session as v: body\<close>.\<close>

definition RedisConnector_scope ::
  "world \<Rightarrow> (handle option \<Rightarrow> (redis_connector, 'a) prog) \<Rightarrow> (redis_connector, 'a) prog" where
  "RedisConnector_scope w body =
     with_stmt (\<lambda>_. RedisConnector_enter w) (\<lambda>_. RedisConnector_exit w) () body"

definition DBConnector_scope ::
  "world \<Rightarrow> (db_connector \<Rightarrow> (db_connector, 'a) prog) \<Rightarrow> (db_connector, 'a) prog" where
  "DBConnector_scope w body =
     with_stmt (\<lambda>_. DBConnector_enter w) (\<lambda>_. DBConnector_exit w) () body"

section \<open>pymysql/database.py: MySQL\<close>

record mysql =
  my_host :: pyval
  my_user :: pyval
  my_password :: pyval
  my_database :: pyval
  my_port :: pyval
  my_charset :: string
  my_conn :: "handle option"
  my_cursor :: "handle option"

datatype exec_result = Last_row_id int | Rows "row list"

definition MySQL_connect :: "world \<Rightarrow> (mysql, unit) prog" where
  "MySQL_connect w =
     then_do get (\<lambda>s.
     then_do (ext_new w (Pymysql_connect (my_host s) (my_port s) (my_user s) (my_password s)
                           (my_database s) (my_charset s) False)) (\<lambda>h.
     then_do (upd (\<lambda>s. s\<lparr>my_conn := Some h\<rparr>)) (\<lambda>_.
     then_do (ext_new w (Conn_cursor h)) (\<lambda>c.
     upd (\<lambda>s. s\<lparr>my_cursor := Some c\<rparr>)))))"

definition MySQL_close :: "world \<Rightarrow> (mysql, unit) prog" where
  "MySQL_close w =
     then_do get (\<lambda>s.
     then_do (case my_cursor s of None \<Rightarrow> ret () | Some c \<Rightarrow> ext w (Cursor_close c)) (\<lambda>_.
     case my_conn s of None \<Rightarrow> ret () | Some h \<Rightarrow> ext w (Conn_close h)))"

text \<open>\<open>self.cursor.m(...)\<close> and \<open>self.conn.m(...)\<close>: on \<open>None\<close> an \<open>AttributeError\<close>.\<close>

definition on_cursor :: "(handle \<Rightarrow> (mysql, 'a) prog) \<Rightarrow> (mysql, 'a) prog" where
  "on_cursor f = then_do get (\<lambda>s. case my_cursor s of
       None \<Rightarrow> raise AttributeError | Some c \<Rightarrow> f c)"

definition on_conn :: "(handle \<Rightarrow> (mysql, 'a) prog) \<Rightarrow> (mysql, 'a) prog" where
  "on_conn f = then_do get (\<lambda>s. case my_conn s of
       None \<Rightarrow> raise AttributeError | Some h \<Rightarrow> f h)"

definition is_insert :: "string \<Rightarrow> bool" where
  "is_insert sql = startswith (py_lower (py_strip sql)) ''insert into''"

definition MySQL_execute ::
  "world \<Rightarrow> string \<Rightarrow> pyval list option \<Rightarrow> (mysql, exec_result) prog" where
  "MySQL_execute w sql params =
     try_finally
       (try_except
          (then_do (MySQL_connect w) (\<lambda>_.
           then_do (on_cursor (\<lambda>c. ext w (Cursor_execute c sql params))) (\<lambda>_.
           then_do (on_conn (\<lambda>h. ext w (Conn_commit h))) (\<lambda>_.
           if is_insert sql
           then on_cursor (\<lambda>c. then_do (read_int w (Cursor_lastrowid c)) (\<lambda>n.
                  ret (Last_row_id n)))
           else on_cursor (\<lambda>c. then_do (fetchall w c) (\<lambda>rs. ret (Rows rs)))))))
          any_exception
          (\<lambda>e. then_do (on_conn (\<lambda>h. ext w (Conn_rollback h))) (\<lambda>_. raise e)))
       (MySQL_close w)"

section \<open>What a teardown step leaves in the trace\<close>

text \<open>A close or stop call issued at trace \<open>t\<close> inside \<open>try ... except Exception\<close>: the call,
  then the log line of its outcome.\<close>

definition closing :: "world \<Rightarrow> trace \<Rightarrow> call \<Rightarrow> log_msg \<Rightarrow> (exn \<Rightarrow> log_msg) \<Rightarrow> trace" where
  "closing w t c ok failed =
     [Ext c, case raises w t c of None \<Rightarrow> Log Info ok | Some e \<Rightarrow> Log Exception (failed e)]"

text \<open>The SQL connection is closed only while the client reports it open.\<close>

definition db_close_events :: "world \<Rightarrow> trace \<Rightarrow> string \<Rightarrow> handle \<Rightarrow> trace" where
  "db_close_events w t ty h =
     (if (ty = ''mysql'' \<and> bool_of w t (Conn_open h)) \<or>
         (ty = ''postgresql'' \<and> \<not> bool_of w t (Conn_closed h))
      then closing w t (Conn_close h) (Db_closed ty) (Db_close_failed ty)
      else [Log Info (Db_closed ty)])"

section \<open>Counting events\<close>

definition is_backend_connect :: "event \<Rightarrow> bool" where
  "is_backend_connect ev = (case ev of
       Ext (Redis_new _ _ _ _) \<Rightarrow> True
     | Ext (Pymysql_connect _ _ _ _ _ _ _) \<Rightarrow> True
     | Ext (Psycopg2_connect _ _ _ _ _) \<Rightarrow> True
     | _ \<Rightarrow> False)"

text \<open>The liveness probes: \<open>ping\<close>, and the statement \<open>SELECT 1\<close>.\<close>

definition is_probe :: "event \<Rightarrow> bool" where
  "is_probe ev = (case ev of
       Ext (Redis_ping _) \<Rightarrow> True
     | Ext (Cursor_execute _ sql _) \<Rightarrow> sql = ''SELECT 1''
     | _ \<Rightarrow> False)"

definition is_tunnel_start :: "event \<Rightarrow> bool" where
  "is_tunnel_start ev = (case ev of Ext (Tunnel_start _) \<Rightarrow> True | _ \<Rightarrow> False)"

definition is_disconnect :: "event \<Rightarrow> bool" where
  "is_disconnect ev = (case ev of Invoked _ \<Rightarrow> True | _ \<Rightarrow> False)"

text \<open>Closing a client connection, stopping a tunnel, rolling back.\<close>

definition is_conn_close :: "event \<Rightarrow> bool" where
  "is_conn_close ev = (case ev of
       Ext (Redis_close _) \<Rightarrow> True | Ext (Conn_close _) \<Rightarrow> True | _ \<Rightarrow> False)"

definition is_tunnel_stop :: "event \<Rightarrow> bool" where
  "is_tunnel_stop ev = (case ev of Ext (Tunnel_stop _) \<Rightarrow> True | _ \<Rightarrow> False)"

definition is_rollback :: "event \<Rightarrow> bool" where
  "is_rollback ev = (case ev of Ext (Conn_rollback _) \<Rightarrow> True | _ \<Rightarrow> False)"

definition count :: "(event \<Rightarrow> bool) \<Rightarrow> trace \<Rightarrow> nat" where
  "count P evs = length (filter P evs)"

section \<open>Sample worlds and sessions\<close>

text \<open>A world whose answers do not depend on the history.\<close>

definition static_world :: "(call \<Rightarrow> exn option) \<Rightarrow> (call \<Rightarrow> bool) \<Rightarrow> world" where
  "static_world f b =
     \<lparr>raises = (\<lambda>t. f), bool_of = (\<lambda>t. b),
      int_of = (\<lambda>t c. case c of Tunnel_local_bind_port _ \<Rightarrow> 40022 | _ \<Rightarrow> 1),
      rows_of = (\<lambda>t c. [])\<rparr>"

text \<open>No call raises; every flag reads \<open>True\<close>.\<close>

definition calm :: world where
  "calm = static_world (\<lambda>c. None) (\<lambda>c. True)"

text \<open>Only the calls \<open>P\<close> picks raise, all with \<open>e\<close>.\<close>

definition failing :: "(call \<Rightarrow> bool) \<Rightarrow> exn \<Rightarrow> world" where
  "failing P e = static_world (\<lambda>c. if P c then Some e else None) (\<lambda>c. True)"

definition cache_config :: config where
  "cache_config = [''ssh_host'' \<mapsto> PStr ''bastion'', ''ssh_port'' \<mapsto> PInt 22,
     ''ssh_username'' \<mapsto> PStr ''ops'', ''ssh_password'' \<mapsto> PStr ''pw'',
     ''redis_host'' \<mapsto> PStr ''cache'']"

text \<open>A cache session behind a tunnel, as its constructor gives it, and the same after a
  connect in the calm world.\<close>

definition cache_session :: redis_connector where
  "cache_session =
     \<lparr>ssh_config = cache_config, tunnel = None, redis_use_ssh = True,
      redis_config = \<lparr>rc_host = PStr ''cache'', rc_port = 6379, rc_db = 0,
                       rc_password = PNone\<rparr>,
      redis_conn = None, redis_is_connected = False\<rparr>"

definition cache_trace :: trace where
  "cache_trace =
     [Ext (SSHTunnelForwarder_new (PStr ''bastion'') (PInt 22) (PStr ''ops'') (PStr ''pw'') None
        (PStr ''cache'') 6379),
      Ext (Tunnel_start 0), Ext (Tunnel_local_bind_port 0), Log Info (Tunnel_established 40022),
      Ext (Tunnel_local_bind_port 0), Ext (Redis_new (PStr ''127.0.0.1'') 40022 0 PNone)]"

definition cache_live :: redis_connector where
  "cache_live =
     \<lparr>ssh_config = cache_config, tunnel = Some 0, redis_use_ssh = True,
      redis_config = \<lparr>rc_host = PStr ''127.0.0.1'', rc_port = 40022, rc_db = 0,
                       rc_password = PNone\<rparr>,
      redis_conn = Some 5, redis_is_connected = True\<rparr>"

definition sql_live :: db_connector where
  "sql_live =
     \<lparr>ssh_config = Map.empty, tunnel = None, db_use_ssh = False,
      db_config = \<lparr>dc_type = ''mysql'', dc_host = PStr ''db'', dc_port = 3306,
                    dc_user = PStr ''root'', dc_password = PNone, dc_name = PStr ''shop''\<rparr>,
      conn = Some 0, db_is_connected = True\<rparr>"

definition sql_trace :: trace where
  "sql_trace =
     [Ext (Pymysql_connect (PStr ''db'') (PInt 3306) (PStr ''root'') PNone (PStr ''shop'')
        ''utf8mb4'' True),
      Ext (Conn_cursor 0)]"

definition sql_session :: db_connector where
  "sql_session =
     \<lparr>ssh_config = Map.empty, tunnel = None, db_use_ssh = False,
      db_config = \<lparr>dc_type = ''mysql'', dc_host = PStr ''db'', dc_port = 3306,
                    dc_user = PStr ''root'', dc_password = PNone, dc_name = PStr ''shop''\<rparr>,
      conn = None, db_is_connected = False\<rparr>"

text \<open>A configuration with every SQL field, the port given as text, and one without
  \<open>db_name\<close>, \<open>redis_host\<close> and the SSH fields.\<close>

definition sql_config :: config where
  "sql_config = [''db_type'' \<mapsto> PStr ''MySQL'', ''db_host'' \<mapsto> PStr ''db'',
     ''db_port'' \<mapsto> PStr ''3306'', ''db_user'' \<mapsto> PStr ''root'',
     ''db_name'' \<mapsto> PStr ''shop'']"

definition nameless_config :: config where
  "nameless_config = [''db_type'' \<mapsto> PStr ''mysql'', ''db_host'' \<mapsto> PStr ''db'',
     ''db_port'' \<mapsto> PInt 3306, ''db_user'' \<mapsto> PStr ''root'']"

text \<open>Kinds of library calls, to pick the ones that fail in a sample world.\<close>

definition is_ping :: "call \<Rightarrow> bool" where
  "is_ping c = (case c of Redis_ping _ \<Rightarrow> True | _ \<Rightarrow> False)"

definition is_execute :: "call \<Rightarrow> bool" where
  "is_execute c = (case c of Cursor_execute _ _ _ \<Rightarrow> True | _ \<Rightarrow> False)"

definition is_key_load :: "call \<Rightarrow> bool" where
  "is_key_load c = (case c of RSAKey_from_private_key_file _ _ \<Rightarrow> True | _ \<Rightarrow> False)"

definition is_cursor_close :: "call \<Rightarrow> bool" where
  "is_cursor_close c = (case c of Cursor_close _ \<Rightarrow> True | _ \<Rightarrow> False)"

text \<open>The server answers the ping with something else than PONG: \<open>ping()\<close> returns
  \<open>False\<close>.  Nothing raises and every other flag reads \<open>True\<close>.\<close>

definition no_pong :: world where
  "no_pong = static_world (\<lambda>c. None) (\<lambda>c. \<not> is_ping c)"

text \<open>The statement fails with a backend error and the rollback fails too, with an error
  of another class.\<close>

definition broken_link :: world where
  "broken_link = static_world
     (\<lambda>c. case c of Cursor_execute _ _ _ \<Rightarrow> Some PyMySQLError
               | Conn_rollback _ \<Rightarrow> Some OtherException
               | _ \<Rightarrow> None)
     (\<lambda>c. True)"

text \<open>The statement fails with a backend error and closing the cursor on the way out
  fails too, with an error of another class.\<close>

definition broken_cursor :: world where
  "broken_cursor = static_world
     (\<lambda>c. case c of Cursor_execute _ _ _ \<Rightarrow> Some PyMySQLError
               | Cursor_close _ \<Rightarrow> Some OtherException
               | _ \<Rightarrow> None)
     (\<lambda>c. True)"

text \<open>The cache session with a private key configured.\<close>

definition keyed_session :: redis_connector where
  "keyed_session = cache_session\<lparr>ssh_config := cache_config(''ssh_pkey_path'' \<mapsto> PStr ''id_rsa'')\<rparr>"

text \<open>The cache session after a connect and a disconnect in the calm world, and the trace
  of that disconnect.\<close>

definition cache_down :: redis_connector where
  "cache_down = cache_live\<lparr>tunnel := None, redis_conn := None, redis_is_connected := False\<rparr>"

definition cache_teardown :: trace where
  "cache_teardown =
     [Invoked Redis_disconnect, Ext (Redis_close 5), Log Info Redis_closed,
      Ext (Tunnel_stop 0), Log Info Tunnel_closed]"

definition sql_teardown :: trace where
  "sql_teardown = [Invoked DB_disconnect, Ext (Conn_close 0), Log Info (Db_closed ''mysql'')]"

definition shop_db :: mysql where
  "shop_db =
     \<lparr>my_host = PStr ''localhost'', my_user = PStr ''root'', my_password = PStr ''pw'',
      my_database = PStr ''stock'', my_port = PInt 3306, my_charset = ''utf8'',
      my_conn = None, my_cursor = None\<rparr>"

text \<open>The call \<open>MySQL.connect\<close> issues (lines 17 to 24).\<close>

definition pymysql_connect_of :: "mysql \<Rightarrow> call" where
  "pymysql_connect_of s =
     Pymysql_connect (my_host s) (my_port s) (my_user s) (my_password s) (my_database s)
       (my_charset s) False"

section \<open>Properties\<close>

lemmas prog_defs = ret_def raise_def then_do_def get_def upd_def log_def invoked_def ext_def
  ext_new_def read_bool_def read_int_def try_except_def try_finally_def with_stmt_def lift_def
  item_def any_exception_def

subsection \<open>Queries on a session that is not connected\<close>

text \<open>
  Claim C5.  On a SQL session that is not connected (the flag is off, or no connection is
  held), \<open>execute_query\<close> and \<open>execute_update\<close> raise the not-connected error (in the
  source Python's \<open>ConnectionError\<close> with the text of lines 240 and 257) and touch
  nothing: the session is unchanged and the trace gets no event, so no cursor is created
  and no statement is sent.
\<close>

theorem execute_requires_connected:
  "\<not> db_is_connected s \<or> conn s = None \<Longrightarrow>
     execute_query w sql params s t = (Inl (ConnectionError Db_not_connected), s, t) \<and>
     execute_update w sql params s t = (Inl (ConnectionError Db_not_connected), s, t)"
  by (auto simp: execute_query_def execute_update_def then_do_def get_def raise_def)

theorem execute_requires_connected_witness:
  "\<not> db_is_connected sql_session \<and>
   execute_query calm ''SELECT name FROM item'' None sql_session [] =
     (Inl (ConnectionError Db_not_connected), sql_session, []) \<and>
   execute_update calm ''DELETE FROM item'' None sql_session [] =
     (Inl (ConnectionError Db_not_connected), sql_session, [])"
proof -
  have h: "\<not> db_is_connected sql_session \<or> conn sql_session = None"
    by (simp add: sql_session_def)
  have c: "\<not> db_is_connected sql_session"
    by (simp add: sql_session_def)
  show ?thesis
    using c execute_requires_connected [OF h, of calm "''SELECT name FROM item''" None "[]"]
      execute_requires_connected [OF h, of calm "''DELETE FROM item''" None "[]"]
    by simp
qed

subsection \<open>Construction\<close>

lemma int_of_string_3306: "int_of_string ''3306'' = Some 3306"
  by code_simp

lemma py_lower_MySQL: "py_lower ''MySQL'' = ''mysql''"
  by code_simp

text \<open>A complete configuration gives a session that is not connected and holds neither a
  connection nor a tunnel; the type is lowered and the port converted.\<close>

lemma DBConnector_init_sql_config:
  "DBConnector_init sql_config False () t =
     (Inr \<lparr>ssh_config = sql_config, tunnel = None, db_use_ssh = False,
           db_config = \<lparr>dc_type = ''mysql'', dc_host = PStr ''db'', dc_port = 3306,
                         dc_user = PStr ''root'', dc_password = PNone,
                         dc_name = PStr ''shop''\<rparr>,
           conn = None, db_is_connected = False\<rparr>, (), t)"
  by (simp add: DBConnector_init_def required_def has_key_def sql_config_def item_def
        dict_item_def lift_def lower_of_def py_int_def int_of_string_3306 py_lower_MySQL
        dict_get_def then_do_def ret_def raise_def)

text \<open>
  Claim C7.  A configuration that lacks a required field is refused by the constructor
  with the configuration error (in the source a \<open>ValueError\<close>): any of the five SQL fields
  for \<open>DBConnector\<close>, \<open>redis_host\<close> for \<open>RedisConnector\<close>, and \<open>ssh_host\<close> or
  \<open>ssh_username\<close> for either when tunnelling is asked for.  The constructors take no
  world, so they cannot call a library, and they leave the trace as it was: nothing is
  done on the network and no connect is attempted.
\<close>

theorem construction_rejects_missing_field:
  "(field \<in> set required \<and> config field = None \<longrightarrow>
      DBConnector_init config use_ssh () t = (Inl (ValueError Missing_required_fields), (), t)) \<and>
   (use_ssh \<and> (config ''ssh_host'' = None \<or> config ''ssh_username'' = None) \<longrightarrow>
      DBConnector_init config use_ssh () t =
        (Inl (ValueError (if list_ex (\<lambda>f. config f = None) required
                          then Missing_required_fields else Ssh_fields_required)), (), t) \<and>
      RedisConnector_init config use_ssh () t = (Inl (ValueError Ssh_fields_required), (), t)) \<and>
   (config ''redis_host'' = None \<longrightarrow>
      RedisConnector_init config use_ssh () t =
        (Inl (ValueError
               (if use_ssh \<and> (config ''ssh_host'' = None \<or> config ''ssh_username'' = None)
                then Ssh_fields_required else Redis_host_required)), (), t))"
  by (auto simp: DBConnector_init_def RedisConnector_init_def has_key_def raise_def list_ex_iff
        dict_get_def truthy_def)

theorem construction_rejects_missing_field_witness:
  "''db_name'' \<in> set required \<and> nameless_config ''db_name'' = None \<and>
   nameless_config ''ssh_host'' = None \<and> nameless_config ''redis_host'' = None \<and>
   DBConnector_init nameless_config True () [] =
     (Inl (ValueError Missing_required_fields), (), []) \<and>
   RedisConnector_init nameless_config True () [] =
     (Inl (ValueError Ssh_fields_required), (), []) \<and>
   RedisConnector_init nameless_config False () [] =
     (Inl (ValueError Redis_host_required), (), [])"
proof -
  have a: "''db_name'' \<in> set required" "nameless_config ''db_name'' = None"
    "nameless_config ''ssh_host'' = None" "nameless_config ''redis_host'' = None"
    by (simp_all add: required_def nameless_config_def)
  show ?thesis
    using a construction_rejects_missing_field [of "''db_name''" nameless_config True "[]"]
      construction_rejects_missing_field [of "''db_name''" nameless_config False "[]"]
    by simp
qed

subsection \<open>Teardown\<close>

lemmas world_defs = calm_def failing_def static_world_def

lemmas redis_defs = RedisConnector_connect_def RedisConnector_connect_body_def
  RedisConnector_disconnect_def redis_ping_def redis_caught_def setup_ssh_tunnel_def
  local_bind_port_def close_ssh_tunnel_def stop_tunnel_def dict_item_def dict_get_def truthy_def

lemmas db_defs = DBConnector_connect_def DBConnector_connect_body_def
  DBConnector_disconnect_def db_connect_caught_def db_query_caught_def close_conn_def
  with_cursor_def cursor_exit_def setup_ssh_tunnel_def
  local_bind_port_def stop_tunnel_def dict_item_def dict_get_def truthy_def

lemma stop_tunnel_eq:
  "stop_tunnel w th s t =
     (Inr (), s, t @ closing w t (Tunnel_stop th) Tunnel_closed Tunnel_close_failed)"
  by (simp add: stop_tunnel_def closing_def prog_defs split: option.splits)

lemma close_conn_eq:
  "close_conn w ty h s t = (Inr (), s, t @ db_close_events w t ty h)"
  by (simp add: close_conn_def db_close_events_def closing_def prog_defs split: option.splits)

lemma RedisConnector_disconnect_eq:
  "RedisConnector_disconnect w s t =
    (let t0 = t @ [Invoked Redis_disconnect];
         t1 = (case redis_conn s of None \<Rightarrow> []
               | Some h \<Rightarrow> closing w t0 (Redis_close h) Redis_closed Redis_close_failed);
         stop = (redis_use_ssh s \<and> (case tunnel s of None \<Rightarrow> False
               | Some th \<Rightarrow> bool_of w (t0 @ t1) (Tunnel_is_active th)));
         t2 = (case tunnel s of None \<Rightarrow> []
               | Some th \<Rightarrow> if stop
                   then closing w (t0 @ t1) (Tunnel_stop th) Tunnel_closed Tunnel_close_failed
                   else [])
     in (Inr (),
         s\<lparr>tunnel := if stop then None else tunnel s, redis_conn := None,
            redis_is_connected := False\<rparr>,
         t0 @ t1 @ t2))"
  by (cases "redis_conn s"; cases "tunnel s")
     (auto simp: RedisConnector_disconnect_def close_ssh_tunnel_def stop_tunnel_eq closing_def
        then_do_def get_def upd_def invoked_def ret_def read_bool_def try_except_def ext_def log_def
        any_exception_def Let_def split: option.splits)

lemma DBConnector_disconnect_eq:
  "DBConnector_disconnect w s t =
    (let t0 = t @ [Invoked DB_disconnect];
         t1 = (case conn s of None \<Rightarrow> []
               | Some h \<Rightarrow> db_close_events w t0 (dc_type (db_config s)) h);
         stop = (case tunnel s of None \<Rightarrow> False
               | Some th \<Rightarrow> bool_of w (t0 @ t1) (Tunnel_is_active th));
         t2 = (case tunnel s of None \<Rightarrow> []
               | Some th \<Rightarrow> if stop
                   then closing w (t0 @ t1) (Tunnel_stop th) Tunnel_closed Tunnel_close_failed
                   else [])
     in (Inr (),
         s\<lparr>tunnel := if stop then None else tunnel s, conn := None,
            db_is_connected := False\<rparr>,
         t0 @ t1 @ t2))"
  by (cases "conn s"; cases "tunnel s")
     (auto simp: DBConnector_disconnect_def stop_tunnel_eq close_conn_eq
        then_do_def get_def upd_def invoked_def ret_def read_bool_def Let_def)

lemma count_append: "count P (xs @ ys) = count P xs + count P ys"
  by (simp add: count_def)

lemma count_Cons: "count P (x # xs) = (if P x then 1 else 0) + count P xs"
  by (simp add: count_def)

lemma count_Nil: "count P [] = 0"
  by (simp add: count_def)

lemma count_closing:
  "count is_disconnect (closing w t c ok failed) = 0"
  "count is_conn_close (closing w t c ok failed) = (if is_conn_close (Ext c) then 1 else 0)"
  "count is_tunnel_stop (closing w t c ok failed) = (if is_tunnel_stop (Ext c) then 1 else 0)"
  by (simp_all add: closing_def count_def is_disconnect_def is_conn_close_def is_tunnel_stop_def
      split: option.splits)

lemma count_db_close_events:
  "count is_disconnect (db_close_events w t ty h) = 0"
  "count is_tunnel_stop (db_close_events w t ty h) = 0"
  "count is_conn_close (db_close_events w t ty h) \<le> Suc 0"
  by (simp_all add: db_close_events_def count_closing count_Cons count_Nil is_disconnect_def
      is_conn_close_def is_tunnel_stop_def)

text \<open>The events one call of disconnect adds, and the session it leaves.\<close>

lemma RedisConnector_disconnect_summary:
  "\<exists>s' ev. RedisConnector_disconnect w s t = (Inr (), s', t @ Invoked Redis_disconnect # ev) \<and>
     redis_conn s' = None \<and> \<not> redis_is_connected s' \<and> redis_use_ssh s' = redis_use_ssh s \<and>
     count is_disconnect ev = 0 \<and>
     count is_conn_close ev = (if redis_conn s = None then 0 else 1) \<and>
     count is_tunnel_stop ev \<le> 1 \<and>
     (tunnel s = None \<longrightarrow> count is_tunnel_stop ev = 0 \<and> tunnel s' = None) \<and>
     (0 < count is_tunnel_stop ev \<longrightarrow> tunnel s' = None) \<and>
     (redis_conn s = None \<and> tunnel s = None \<longrightarrow> ev = [] \<and> s' = s\<lparr>redis_is_connected := False\<rparr>)"
  by (cases "redis_conn s"; cases "tunnel s")
     (auto simp: RedisConnector_disconnect_eq Let_def count_append count_closing count_Nil
       is_conn_close_def is_tunnel_stop_def)

lemma DBConnector_disconnect_summary:
  "\<exists>s' ev. DBConnector_disconnect w s t = (Inr (), s', t @ Invoked DB_disconnect # ev) \<and>
     conn s' = None \<and> \<not> db_is_connected s' \<and>
     count is_disconnect ev = 0 \<and>
     count is_conn_close ev \<le> 1 \<and> (conn s = None \<longrightarrow> count is_conn_close ev = 0) \<and>
     count is_tunnel_stop ev \<le> 1 \<and>
     (tunnel s = None \<longrightarrow> count is_tunnel_stop ev = 0 \<and> tunnel s' = None) \<and>
     (0 < count is_tunnel_stop ev \<longrightarrow> tunnel s' = None) \<and>
     (conn s = None \<and> tunnel s = None \<longrightarrow> ev = [] \<and> s' = s\<lparr>db_is_connected := False\<rparr>)"
  by (cases "conn s"; cases "tunnel s")
     (auto simp: DBConnector_disconnect_eq Let_def count_append count_closing count_Nil
       count_db_close_events is_conn_close_def is_tunnel_stop_def)

text \<open>
  Claim C4.  \<open>disconnect\<close> never raises, for both sessions and whatever the libraries do.
  It first closes the client connection if the session holds one (for SQL, if the client
  reports it open), logging the outcome, and forgets it; then it stops the tunnel if the
  session holds one that is active (for the cache session, if tunnelling was asked for),
  logging the outcome, and forgets it; then it marks the session disconnected.  The
  tunnel step is taken from the trace as the first step left it, whether the close
  raised or not.
\<close>

theorem disconnect_tears_down:
  "RedisConnector_disconnect w s t =
    (let t0 = t @ [Invoked Redis_disconnect];
         t1 = (case redis_conn s of None \<Rightarrow> []
               | Some h \<Rightarrow> closing w t0 (Redis_close h) Redis_closed Redis_close_failed);
         stop = (redis_use_ssh s \<and> (case tunnel s of None \<Rightarrow> False
               | Some th \<Rightarrow> bool_of w (t0 @ t1) (Tunnel_is_active th)));
         t2 = (case tunnel s of None \<Rightarrow> []
               | Some th \<Rightarrow> if stop
                   then closing w (t0 @ t1) (Tunnel_stop th) Tunnel_closed Tunnel_close_failed
                   else [])
     in (Inr (),
         s\<lparr>tunnel := if stop then None else tunnel s, redis_conn := None,
            redis_is_connected := False\<rparr>,
         t0 @ t1 @ t2)) \<and>
   DBConnector_disconnect w d t =
    (let t0 = t @ [Invoked DB_disconnect];
         t1 = (case conn d of None \<Rightarrow> []
               | Some h \<Rightarrow> db_close_events w t0 (dc_type (db_config d)) h);
         stop = (case tunnel d of None \<Rightarrow> False
               | Some th \<Rightarrow> bool_of w (t0 @ t1) (Tunnel_is_active th));
         t2 = (case tunnel d of None \<Rightarrow> []
               | Some th \<Rightarrow> if stop
                   then closing w (t0 @ t1) (Tunnel_stop th) Tunnel_closed Tunnel_close_failed
                   else [])
     in (Inr (),
         d\<lparr>tunnel := if stop then None else tunnel d, conn := None,
            db_is_connected := False\<rparr>,
         t0 @ t1 @ t2))"
  using RedisConnector_disconnect_eq [of w s t] DBConnector_disconnect_eq [of w d t]
  by simp

text \<open>
  Claim C9.  A second \<open>disconnect\<close> right after a first raises nothing, issues no close
  of a client connection, and leaves the session disconnected; over both calls at most
  one connection close and at most one tunnel stop are issued, so nothing is closed
  twice.  On a session that is disconnected and holds nothing, \<open>disconnect\<close> changes
  neither the session nor anything outside (the trace only gets the record of the
  invocation).
\<close>

theorem disconnect_twice:
  "(RedisConnector_disconnect w s t = (r1, s1, t1) \<longrightarrow>
      (\<exists>s2 ev1 ev2. t1 = t @ ev1 \<and>
         RedisConnector_disconnect w s1 t1 = (Inr (), s2, t1 @ ev2) \<and>
         redis_conn s2 = None \<and> \<not> redis_is_connected s2 \<and>
         count is_conn_close ev2 = 0 \<and>
         count is_conn_close (ev1 @ ev2) \<le> 1 \<and> count is_tunnel_stop (ev1 @ ev2) \<le> 1)) \<and>
   (DBConnector_disconnect w d t = (q1, d1, t1') \<longrightarrow>
      (\<exists>d2 ev1 ev2. t1' = t @ ev1 \<and>
         DBConnector_disconnect w d1 t1' = (Inr (), d2, t1' @ ev2) \<and>
         conn d2 = None \<and> \<not> db_is_connected d2 \<and>
         count is_conn_close ev2 = 0 \<and>
         count is_conn_close (ev1 @ ev2) \<le> 1 \<and> count is_tunnel_stop (ev1 @ ev2) \<le> 1)) \<and>
   (redis_conn s = None \<and> tunnel s = None \<and> \<not> redis_is_connected s \<longrightarrow>
      RedisConnector_disconnect w s t = (Inr (), s, t @ [Invoked Redis_disconnect])) \<and>
   (conn d = None \<and> tunnel d = None \<and> \<not> db_is_connected d \<longrightarrow>
      DBConnector_disconnect w d t = (Inr (), d, t @ [Invoked DB_disconnect]))"
proof (intro conjI impI)
  assume a: "RedisConnector_disconnect w s t = (r1, s1, t1)"
  from RedisConnector_disconnect_summary [of w s t] a obtain ev1 where
    1: "t1 = t @ Invoked Redis_disconnect # ev1" "redis_conn s1 = None"
       "count is_conn_close ev1 \<le> 1" "count is_tunnel_stop ev1 \<le> 1"
       "0 < count is_tunnel_stop ev1 \<longrightarrow> tunnel s1 = None"
    by (auto split: if_splits)
  from RedisConnector_disconnect_summary [of w s1 t1] 1 obtain s2 ev2 where
    2: "RedisConnector_disconnect w s1 t1 = (Inr (), s2, t1 @ Invoked Redis_disconnect # ev2)"
       "redis_conn s2 = None" "\<not> redis_is_connected s2" "count is_conn_close ev2 = 0"
       "count is_tunnel_stop ev2 \<le> 1" "tunnel s1 = None \<longrightarrow> count is_tunnel_stop ev2 = 0"
    by auto
  have m: "is_conn_close (Invoked Redis_disconnect) = False"
    "is_tunnel_stop (Invoked Redis_disconnect) = False"
    by (simp_all add: is_conn_close_def is_tunnel_stop_def)
  from 1 2 have "count is_tunnel_stop ev1 + count is_tunnel_stop ev2 \<le> 1"
    by (cases "count is_tunnel_stop ev1") auto
  with 1 2 show "\<exists>s2 ev1 ev2. t1 = t @ ev1 \<and>
         RedisConnector_disconnect w s1 t1 = (Inr (), s2, t1 @ ev2) \<and>
         redis_conn s2 = None \<and> \<not> redis_is_connected s2 \<and>
         count is_conn_close ev2 = 0 \<and>
         count is_conn_close (ev1 @ ev2) \<le> 1 \<and> count is_tunnel_stop (ev1 @ ev2) \<le> 1"
    by (intro exI [of _ s2] exI [of _ "Invoked Redis_disconnect # ev1"]
          exI [of _ "Invoked Redis_disconnect # ev2"])
       (simp add: count_append count_Cons m)
next
  assume a: "DBConnector_disconnect w d t = (q1, d1, t1')"
  from DBConnector_disconnect_summary [of w d t] a obtain ev1 where
    1: "t1' = t @ Invoked DB_disconnect # ev1" "conn d1 = None"
       "count is_conn_close ev1 \<le> 1" "count is_tunnel_stop ev1 \<le> 1"
       "0 < count is_tunnel_stop ev1 \<longrightarrow> tunnel d1 = None"
    by (auto split: if_splits)
  from DBConnector_disconnect_summary [of w d1 t1'] 1 obtain d2 ev2 where
    2: "DBConnector_disconnect w d1 t1' = (Inr (), d2, t1' @ Invoked DB_disconnect # ev2)"
       "conn d2 = None" "\<not> db_is_connected d2" "count is_conn_close ev2 = 0"
       "count is_tunnel_stop ev2 \<le> 1" "tunnel d1 = None \<longrightarrow> count is_tunnel_stop ev2 = 0"
    by auto
  have m: "is_conn_close (Invoked DB_disconnect) = False"
    "is_tunnel_stop (Invoked DB_disconnect) = False"
    by (simp_all add: is_conn_close_def is_tunnel_stop_def)
  from 1 2 have "count is_tunnel_stop ev1 + count is_tunnel_stop ev2 \<le> 1"
    by (cases "count is_tunnel_stop ev1") auto
  with 1 2 show "\<exists>d2 ev1 ev2. t1' = t @ ev1 \<and>
         DBConnector_disconnect w d1 t1' = (Inr (), d2, t1' @ ev2) \<and>
         conn d2 = None \<and> \<not> db_is_connected d2 \<and>
         count is_conn_close ev2 = 0 \<and>
         count is_conn_close (ev1 @ ev2) \<le> 1 \<and> count is_tunnel_stop (ev1 @ ev2) \<le> 1"
    by (intro exI [of _ d2] exI [of _ "Invoked DB_disconnect # ev1"]
          exI [of _ "Invoked DB_disconnect # ev2"])
       (simp add: count_append count_Cons m)
next
  assume "redis_conn s = None \<and> tunnel s = None \<and> \<not> redis_is_connected s"
  then show "RedisConnector_disconnect w s t = (Inr (), s, t @ [Invoked Redis_disconnect])"
    by (simp add: RedisConnector_disconnect_eq)
next
  assume "conn d = None \<and> tunnel d = None \<and> \<not> db_is_connected d"
  then show "DBConnector_disconnect w d t = (Inr (), d, t @ [Invoked DB_disconnect])"
    by (simp add: DBConnector_disconnect_eq)
qed


subsection \<open>Connecting\<close>

lemma then_do_Inr:
  "then_do m f s t = (Inr v, s', t') \<longleftrightarrow>
     (\<exists>x s1 t1. m s t = (Inr x, s1, t1) \<and> f x s1 t1 = (Inr v, s', t'))"
  by (auto simp: then_do_def split: prod.splits sum.splits)

lemma setup_ssh_tunnel_success:
  "setup_ssh_tunnel w rh rp s t = (Inr v, s1, t1) \<Longrightarrow>
     \<exists>ev. t1 = t @ ev \<and> count is_tunnel_start ev = 1 \<and> count is_backend_connect ev = 0
        \<and> count is_probe ev = 0 \<and> s1 = s\<lparr>tunnel := tunnel s1\<rparr> \<and> tunnel s1 \<noteq> None"
  by (auto simp: setup_ssh_tunnel_def local_bind_port_def prog_defs dict_item_def count_def
      is_tunnel_start_def is_backend_connect_def is_probe_def
      split: if_splits option.splits sum.splits)

lemma RedisConnector_connect_body_success:
  assumes "RedisConnector_connect_body w s t = (Inr (), s1, t1)"
  shows "\<exists>ev. t1 = t @ ev \<and> count is_tunnel_start ev = (if redis_use_ssh s then 1 else 0) \<and>
         count is_backend_connect ev = 1 \<and> count is_probe ev = 1 \<and> redis_is_connected s1 \<and>
         redis_conn s1 \<noteq> None"
proof (cases "redis_use_ssh s")
  case False
  with assms show ?thesis
    by (auto simp: RedisConnector_connect_body_def redis_ping_def prog_defs count_def
        is_tunnel_start_def is_backend_connect_def is_probe_def
        split: if_splits option.splits)
next
  case True
  from assms True obtain v sa ta where
    tun: "setup_ssh_tunnel w (rc_host (redis_config s)) (rc_port (redis_config s)) s t
             = (Inr v, sa, ta)"
    by (auto simp: RedisConnector_connect_body_def then_do_Inr get_def)
  from setup_ssh_tunnel_success [OF tun] obtain ev where
    ev: "ta = t @ ev" "count is_tunnel_start ev = 1" "count is_backend_connect ev = 0"
      "count is_probe ev = 0"
    by blast
  from assms True tun ev show ?thesis
    by (auto simp: RedisConnector_connect_body_def redis_ping_def prog_defs count_def
        is_tunnel_start_def is_backend_connect_def is_probe_def
        split: if_splits option.splits prod.splits)
qed


lemma DBConnector_connect_body_success:
  assumes "DBConnector_connect_body w s t = (Inr (), s1, t1)"
  shows "\<exists>ev. t1 = t @ ev \<and> count is_tunnel_start ev = (if db_use_ssh s then 1 else 0) \<and>
         count is_backend_connect ev = 1 \<and> count is_probe ev = 1 \<and> db_is_connected s1 \<and>
         conn s1 \<noteq> None"
proof (cases "db_use_ssh s")
  case False
  with assms show ?thesis
    by (auto simp: DBConnector_connect_body_def with_cursor_def cursor_exit_def prog_defs
        count_def is_tunnel_start_def is_backend_connect_def is_probe_def
        split: if_splits option.splits)
next
  case True
  from assms True obtain v sa ta where
    tun: "setup_ssh_tunnel w (dc_host (db_config s)) (dc_port (db_config s)) s t
             = (Inr v, sa, ta)"
    by (auto simp: DBConnector_connect_body_def then_do_Inr get_def)
  from setup_ssh_tunnel_success [OF tun] obtain ev where
    ev: "ta = t @ ev" "count is_tunnel_start ev = 1" "count is_backend_connect ev = 0"
      "count is_probe ev = 0"
    by blast
  from assms True tun ev show ?thesis
    by (auto simp: DBConnector_connect_body_def with_cursor_def cursor_exit_def prog_defs
        count_def is_tunnel_start_def is_backend_connect_def is_probe_def
        split: if_splits option.splits prod.splits)
qed

text \<open>
  Claim C8.  On a connected session \<open>connect\<close> only logs a warning: it returns normally,
  the session is unchanged and no library is called.  So over a successful \<open>connect\<close>
  followed by a second one, the tunnel is started once (when tunnelling is on, else not
  at all), the backend client is connected once and the probe is run once.
\<close>

theorem connect_when_connected:
  "(redis_is_connected s \<longrightarrow>
      RedisConnector_connect w s t = (Inr (), s, t @ [Log Warning Redis_already_connected])) \<and>
   (\<not> redis_is_connected s \<and> RedisConnector_connect w s t = (Inr (), s1, t1) \<longrightarrow>
      (\<exists>ev. t1 = t @ ev \<and>
         RedisConnector_connect w s1 t1 =
           (Inr (), s1, t @ ev @ [Log Warning Redis_already_connected]) \<and>
         count is_tunnel_start (ev @ [Log Warning Redis_already_connected]) =
           (if redis_use_ssh s then 1 else 0) \<and>
         count is_backend_connect (ev @ [Log Warning Redis_already_connected]) = 1 \<and>
         count is_probe (ev @ [Log Warning Redis_already_connected]) = 1)) \<and>
   (db_is_connected d \<longrightarrow>
      DBConnector_connect w d t = (Inr (), d, t @ [Log Warning Db_already_connected])) \<and>
   (\<not> db_is_connected d \<and> DBConnector_connect w d t = (Inr (), d1, t1) \<longrightarrow>
      (\<exists>ev. t1 = t @ ev \<and>
         DBConnector_connect w d1 t1 =
           (Inr (), d1, t @ ev @ [Log Warning Db_already_connected]) \<and>
         count is_tunnel_start (ev @ [Log Warning Db_already_connected]) =
           (if db_use_ssh d then 1 else 0) \<and>
         count is_backend_connect (ev @ [Log Warning Db_already_connected]) = 1 \<and>
         count is_probe (ev @ [Log Warning Db_already_connected]) = 1))"
proof -
  have again_r: "redis_is_connected x \<Longrightarrow>
      RedisConnector_connect w x u = (Inr (), x, u @ [Log Warning Redis_already_connected])"
    for x u
    by (simp add: RedisConnector_connect_def then_do_def get_def log_def)
  have again_d: "db_is_connected x \<Longrightarrow>
      DBConnector_connect w x u = (Inr (), x, u @ [Log Warning Db_already_connected])"
    for x u
    by (simp add: DBConnector_connect_def then_do_def get_def log_def)
  have first_r: "RedisConnector_connect_body w s t = (Inr (), s1, t1)"
    if "\<not> redis_is_connected s" "RedisConnector_connect w s t = (Inr (), s1, t1)"
    using that
    by (auto simp: RedisConnector_connect_def then_do_def get_def try_except_def raise_def
        split: prod.splits sum.splits if_splits)
  have first_d: "DBConnector_connect_body w d t = (Inr (), d1, t1)"
    if "\<not> db_is_connected d" "DBConnector_connect w d t = (Inr (), d1, t1)"
    using that
    by (auto simp: DBConnector_connect_def then_do_def get_def try_except_def raise_def
        split: prod.splits sum.splits if_splits)
  have log_count: "count is_tunnel_start [Log l m] = 0" "count is_backend_connect [Log l m] = 0"
    "count is_probe [Log l m] = 0" for l m
    by (simp_all add: count_def is_tunnel_start_def is_backend_connect_def is_probe_def)
  show ?thesis
    using again_r again_d
      RedisConnector_connect_body_success [OF first_r]
      DBConnector_connect_body_success [OF first_d]
    by (auto simp: count_append log_count)
qed

lemmas sample_defs = cache_session_def cache_config_def cache_live_def cache_trace_def
  cache_down_def cache_teardown_def keyed_session_def sql_session_def sql_live_def sql_trace_def
  sql_teardown_def shop_db_def

lemmas kind_defs = is_ping_def is_execute_def is_key_load_def is_cursor_close_def

theorem disconnect_twice_witness:
  "RedisConnector_disconnect calm cache_live [] = (Inr (), cache_down, cache_teardown) \<and>
   RedisConnector_disconnect calm cache_down cache_teardown =
     (Inr (), cache_down, cache_teardown @ [Invoked Redis_disconnect]) \<and>
   DBConnector_disconnect calm sql_live [] = (Inr (), sql_session, sql_teardown) \<and>
   conn sql_session = None \<and> tunnel sql_session = None \<and> \<not> db_is_connected sql_session \<and>
   DBConnector_disconnect calm sql_session sql_teardown =
     (Inr (), sql_session, sql_teardown @ [Invoked DB_disconnect]) \<and>
   redis_conn cache_down = None \<and> tunnel cache_down = None \<and> \<not> redis_is_connected cache_down"
  using disconnect_twice [where w = calm and s = cache_live and t = "[]" and d = sql_live]
    disconnect_twice [where w = calm and s = cache_down and t = cache_teardown
      and d = sql_live]
    disconnect_twice [where w = calm and s = cache_down and t = sql_teardown
      and d = sql_session]
  by (simp add: RedisConnector_disconnect_eq DBConnector_disconnect_eq closing_def
      db_close_events_def world_defs sample_defs)

theorem connect_when_connected_witness:
  "\<not> redis_is_connected cache_session \<and> redis_is_connected cache_live \<and>
   RedisConnector_connect calm cache_session [] =
     (Inr (), cache_live, cache_trace @ [Ext (Redis_ping 5), Log Info Redis_connected]) \<and>
   RedisConnector_connect calm cache_live
       (cache_trace @ [Ext (Redis_ping 5), Log Info Redis_connected]) =
     (Inr (), cache_live,
      cache_trace @ [Ext (Redis_ping 5), Log Info Redis_connected,
                     Log Warning Redis_already_connected]) \<and>
   \<not> db_is_connected sql_session \<and> db_is_connected sql_live \<and>
   DBConnector_connect calm sql_session [] =
     (Inr (), sql_live,
      sql_trace @ [Ext (Cursor_execute 1 ''SELECT 1'' None), Ext (Cursor_close 1),
                   Log Info (Db_connected ''mysql'')]) \<and>
   DBConnector_connect calm sql_live
       (sql_trace @ [Ext (Cursor_execute 1 ''SELECT 1'' None), Ext (Cursor_close 1),
                     Log Info (Db_connected ''mysql'')]) =
     (Inr (), sql_live,
      sql_trace @ [Ext (Cursor_execute 1 ''SELECT 1'' None), Ext (Cursor_close 1),
                   Log Info (Db_connected ''mysql''), Log Warning Db_already_connected])"
proof -
  have r: "RedisConnector_connect calm cache_session [] =
     (Inr (), cache_live, cache_trace @ [Ext (Redis_ping 5), Log Info Redis_connected])"
    by (simp add: redis_defs prog_defs world_defs sample_defs)
  have d: "DBConnector_connect calm sql_session [] =
     (Inr (), sql_live,
      sql_trace @ [Ext (Cursor_execute 1 ''SELECT 1'' None), Ext (Cursor_close 1),
                   Log Info (Db_connected ''mysql'')])"
    by (simp add: db_defs prog_defs world_defs sample_defs)
  have f: "\<not> redis_is_connected cache_session" "redis_is_connected cache_live"
    "\<not> db_is_connected sql_session" "db_is_connected sql_live"
    by (simp_all add: sample_defs)
  show ?thesis
    using r d f
      connect_when_connected [where w = calm and s = cache_live and d = sql_live
        and t = "cache_trace @ [Ext (Redis_ping 5), Log Info Redis_connected]"]
      connect_when_connected [where w = calm and s = cache_session and d = sql_live and t = "[]"
        and ?s1.0 = cache_live
        and ?t1.0 = "cache_trace @ [Ext (Redis_ping 5), Log Info Redis_connected]"]
      connect_when_connected [where w = calm and s = cache_live and d = sql_live
        and t = "sql_trace @ [Ext (Cursor_execute 1 ''SELECT 1'' None), Ext (Cursor_close 1),
                   Log Info (Db_connected ''mysql'')]"]
    by simp
qed

subsection \<open>Sessions under \<open>with\<close>\<close>

text \<open>
  Claim C2.  Entering the scope runs \<open>connect\<close>; if that raises, the exception goes to the
  caller and the body is not run.  Otherwise the body is run on what \<open>connect\<close> left and
  receives the handle: the raw cache client \<open>redis_conn\<close> of the cache session, the
  session itself for the SQL session.  Whatever the body does and whether it returns or
  raises (\<open>r\<close> and \<open>q\<close> are arbitrary), leaving the scope invokes \<open>disconnect\<close> exactly once,
  the session ends disconnected, and the outcome of the body is the outcome of the scope.
\<close>

theorem scope_disconnects_once:
  "(RedisConnector_connect w s t = (Inl e, s1, t1) \<longrightarrow>
      RedisConnector_scope w body s t = (Inl e, s1, t1)) \<and>
   (RedisConnector_connect w s t = (Inr (), s1, t1) \<and> body (redis_conn s1) s1 t1 = (r, s2, t2) \<longrightarrow>
      (\<exists>s3 ev. RedisConnector_scope w body s t = (r, s3, t2 @ ev) \<and>
         count is_disconnect ev = 1 \<and> redis_conn s3 = None \<and> \<not> redis_is_connected s3)) \<and>
   (DBConnector_connect w d t = (Inl e, d1, t1) \<longrightarrow>
      DBConnector_scope w dbody d t = (Inl e, d1, t1)) \<and>
   (DBConnector_connect w d t = (Inr (), d1, t1) \<and> dbody d1 d1 t1 = (q, d2, t2') \<longrightarrow>
      (\<exists>d3 ev. DBConnector_scope w dbody d t = (q, d3, t2' @ ev) \<and>
         count is_disconnect ev = 1 \<and> conn d3 = None \<and> \<not> db_is_connected d3))"
proof (intro conjI impI)
  assume "RedisConnector_connect w s t = (Inl e, s1, t1)"
  then show "RedisConnector_scope w body s t = (Inl e, s1, t1)"
    by (simp add: RedisConnector_scope_def RedisConnector_enter_def with_stmt_def then_do_def)
next
  assume "DBConnector_connect w d t = (Inl e, d1, t1)"
  then show "DBConnector_scope w dbody d t = (Inl e, d1, t1)"
    by (simp add: DBConnector_scope_def DBConnector_enter_def with_stmt_def then_do_def)
next
  assume a: "RedisConnector_connect w s t = (Inr (), s1, t1) \<and>
    body (redis_conn s1) s1 t1 = (r, s2, t2)"
  from RedisConnector_disconnect_summary [of w s2 t2] obtain s3 ev where
    x: "RedisConnector_disconnect w s2 t2 = (Inr (), s3, t2 @ Invoked Redis_disconnect # ev)"
      "redis_conn s3 = None" "\<not> redis_is_connected s3" "count is_disconnect ev = 0"
    by blast
  from a x have "RedisConnector_scope w body s t = (r, s3, t2 @ Invoked Redis_disconnect # ev)"
    by (simp add: RedisConnector_scope_def RedisConnector_enter_def RedisConnector_exit_def
        with_stmt_def try_finally_def then_do_def get_def ret_def)
  with x show "\<exists>s3 ev. RedisConnector_scope w body s t = (r, s3, t2 @ ev) \<and>
         count is_disconnect ev = 1 \<and> redis_conn s3 = None \<and> \<not> redis_is_connected s3"
    by (intro exI [of _ s3] exI [of _ "Invoked Redis_disconnect # ev"])
       (simp add: count_Cons is_disconnect_def)
next
  assume a: "DBConnector_connect w d t = (Inr (), d1, t1) \<and> dbody d1 d1 t1 = (q, d2, t2')"
  from DBConnector_disconnect_summary [of w d2 t2'] obtain d3 ev where
    x: "DBConnector_disconnect w d2 t2' = (Inr (), d3, t2' @ Invoked DB_disconnect # ev)"
      "conn d3 = None" "\<not> db_is_connected d3" "count is_disconnect ev = 0"
    by blast
  from a x have "DBConnector_scope w dbody d t = (q, d3, t2' @ Invoked DB_disconnect # ev)"
    by (simp add: DBConnector_scope_def DBConnector_enter_def DBConnector_exit_def
        with_stmt_def try_finally_def then_do_def get_def ret_def)
  with x show "\<exists>d3 ev. DBConnector_scope w dbody d t = (q, d3, t2' @ ev) \<and>
         count is_disconnect ev = 1 \<and> conn d3 = None \<and> \<not> db_is_connected d3"
    by (intro exI [of _ d3] exI [of _ "Invoked DB_disconnect # ev"])
       (simp add: count_Cons is_disconnect_def)
qed


subsection \<open>Failures while connecting\<close>

text \<open>
  Claim C1, as the code has it.  When the connect sequence (the body of the \<open>try\<close>: tunnel
  open, client connect, probe) of a session that is not connected raises an exception of
  a class the \<open>except\<close> clause names (for the cache session \<open>redis.RedisError\<close>,
  \<open>BaseSSHTunnelForwarderError\<close>, paramiko's \<open>SSHException\<close>; for the SQL session
  \<open>pymysql.Error\<close>, \<open>psycopg2.Error\<close>, \<open>ValueError\<close>), \<open>connect\<close> logs it, runs
  \<open>disconnect\<close> exactly once on what the sequence left, and raises that same exception
  again, unchanged; the session ends disconnected.
\<close>

theorem connect_failure_unwinds:
  "(\<not> redis_is_connected s \<and> RedisConnector_connect_body w s t = (Inl e, s1, t1) \<and>
    redis_caught e \<longrightarrow>
      (\<exists>s2 ev. RedisConnector_disconnect w s1 (t1 @ [Log Exception (Connect_failed e)]) =
                  (Inr (), s2, t1 @ [Log Exception (Connect_failed e)] @ ev) \<and>
         RedisConnector_connect w s t =
           (Inl e, s2, t1 @ [Log Exception (Connect_failed e)] @ ev) \<and>
         count is_disconnect ev = 1 \<and> redis_conn s2 = None \<and> \<not> redis_is_connected s2)) \<and>
   (\<not> db_is_connected d \<and> DBConnector_connect_body w d t = (Inl e', d1, t1') \<and>
    db_connect_caught e' \<longrightarrow>
      (\<exists>d2 ev. DBConnector_disconnect w d1 (t1' @ [Log Exception (Connect_failed e')]) =
                  (Inr (), d2, t1' @ [Log Exception (Connect_failed e')] @ ev) \<and>
         DBConnector_connect w d t =
           (Inl e', d2, t1' @ [Log Exception (Connect_failed e')] @ ev) \<and>
         count is_disconnect ev = 1 \<and> conn d2 = None \<and> \<not> db_is_connected d2))"
proof (intro conjI impI)
  assume a: "\<not> redis_is_connected s \<and> RedisConnector_connect_body w s t = (Inl e, s1, t1) \<and>
    redis_caught e"
  from RedisConnector_disconnect_summary [of w s1 "t1 @ [Log Exception (Connect_failed e)]"]
  obtain s2 ev where
    x: "RedisConnector_disconnect w s1 (t1 @ [Log Exception (Connect_failed e)]) =
          (Inr (), s2, (t1 @ [Log Exception (Connect_failed e)]) @ Invoked Redis_disconnect # ev)"
      "redis_conn s2 = None" "\<not> redis_is_connected s2" "count is_disconnect ev = 0"
    by blast
  from a x have "RedisConnector_connect w s t =
      (Inl e, s2, (t1 @ [Log Exception (Connect_failed e)]) @ Invoked Redis_disconnect # ev)"
    by (simp add: RedisConnector_connect_def then_do_def get_def try_except_def log_def
        raise_def)
  with x show "\<exists>s2 ev. RedisConnector_disconnect w s1 (t1 @ [Log Exception (Connect_failed e)]) =
                  (Inr (), s2, t1 @ [Log Exception (Connect_failed e)] @ ev) \<and>
         RedisConnector_connect w s t =
           (Inl e, s2, t1 @ [Log Exception (Connect_failed e)] @ ev) \<and>
         count is_disconnect ev = 1 \<and> redis_conn s2 = None \<and> \<not> redis_is_connected s2"
    by (intro exI [of _ s2] exI [of _ "Invoked Redis_disconnect # ev"])
       (simp add: count_Cons is_disconnect_def)
next
  assume a: "\<not> db_is_connected d \<and> DBConnector_connect_body w d t = (Inl e', d1, t1') \<and>
    db_connect_caught e'"
  from DBConnector_disconnect_summary [of w d1 "t1' @ [Log Exception (Connect_failed e')]"]
  obtain d2 ev where
    x: "DBConnector_disconnect w d1 (t1' @ [Log Exception (Connect_failed e')]) =
          (Inr (), d2, (t1' @ [Log Exception (Connect_failed e')]) @ Invoked DB_disconnect # ev)"
      "conn d2 = None" "\<not> db_is_connected d2" "count is_disconnect ev = 0"
    by blast
  from a x have "DBConnector_connect w d t =
      (Inl e', d2, (t1' @ [Log Exception (Connect_failed e')]) @ Invoked DB_disconnect # ev)"
    by (simp add: DBConnector_connect_def then_do_def get_def try_except_def log_def
        raise_def)
  with x show "\<exists>d2 ev. DBConnector_disconnect w d1 (t1' @ [Log Exception (Connect_failed e')]) =
                  (Inr (), d2, t1' @ [Log Exception (Connect_failed e')] @ ev) \<and>
         DBConnector_connect w d t =
           (Inl e', d2, t1' @ [Log Exception (Connect_failed e')] @ ev) \<and>
         count is_disconnect ev = 1 \<and> conn d2 = None \<and> \<not> db_is_connected d2"
    by (intro exI [of _ d2] exI [of _ "Invoked DB_disconnect # ev"])
       (simp add: count_Cons is_disconnect_def)
qed

subsection \<open>Sample runs\<close>

lemma calm_cache_connect:
  "RedisConnector_connect calm cache_session [] =
     (Inr (), cache_live, cache_trace @ [Ext (Redis_ping 5), Log Info Redis_connected])"
  by (simp add: redis_defs prog_defs world_defs sample_defs)

lemma calm_sql_connect:
  "DBConnector_connect calm sql_session [] =
     (Inr (), sql_live,
      sql_trace @ [Ext (Cursor_execute 1 ''SELECT 1'' None), Ext (Cursor_close 1),
                   Log Info (Db_connected ''mysql'')])"
  by (simp add: db_defs prog_defs world_defs sample_defs)

lemma calm_query:
  "execute_query calm ''SELECT name FROM item'' None sql_live
      (sql_trace @ [Ext (Cursor_execute 1 ''SELECT 1'' None), Ext (Cursor_close 1),
                   Log Info (Db_connected ''mysql'')]) =
     (Inr [], sql_live,
      sql_trace @ [Ext (Cursor_execute 1 ''SELECT 1'' None), Ext (Cursor_close 1),
                   Log Info (Db_connected ''mysql''), Ext (Conn_cursor 0),
                   Ext (Cursor_execute 5 ''SELECT name FROM item'' (Some [])),
                   Ext (Cursor_fetchall 5), Ext (Cursor_close 5)])"
  by (simp add: execute_query_def query_block_def fetchall_def params_or_empty_def db_defs
      prog_defs world_defs sample_defs)

theorem scope_disconnects_once_witness:
  "RedisConnector_connect calm cache_session [] =
     (Inr (), cache_live, cache_trace @ [Ext (Redis_ping 5), Log Info Redis_connected]) \<and>
   redis_conn cache_live = Some 5 \<and>
   RedisConnector_scope calm (\<lambda>client. raise RedisError) cache_session [] =
     (Inl RedisError, cache_down,
      cache_trace @ [Ext (Redis_ping 5), Log Info Redis_connected] @ cache_teardown) \<and>
   DBConnector_connect calm sql_session [] =
     (Inr (), sql_live,
      sql_trace @ [Ext (Cursor_execute 1 ''SELECT 1'' None), Ext (Cursor_close 1),
                   Log Info (Db_connected ''mysql'')]) \<and>
   DBConnector_scope calm (\<lambda>self. execute_query calm ''SELECT name FROM item'' None)
       sql_session [] =
     (Inr [], sql_session,
      sql_trace @ [Ext (Cursor_execute 1 ''SELECT 1'' None), Ext (Cursor_close 1),
                   Log Info (Db_connected ''mysql''), Ext (Conn_cursor 0),
                   Ext (Cursor_execute 5 ''SELECT name FROM item'' (Some [])),
                   Ext (Cursor_fetchall 5), Ext (Cursor_close 5)] @ sql_teardown) \<and>
   count is_disconnect cache_teardown = 1 \<and> count is_disconnect sql_teardown = 1"
proof -
  have b: "(\<lambda>client. raise RedisError :: (redis_connector, unit) prog) (redis_conn cache_live)
      cache_live (cache_trace @ [Ext (Redis_ping 5), Log Info Redis_connected]) =
      (Inl RedisError, cache_live, cache_trace @ [Ext (Redis_ping 5), Log Info Redis_connected])"
    by (simp add: raise_def)
  have x: "RedisConnector_disconnect calm cache_live
      (cache_trace @ [Ext (Redis_ping 5), Log Info Redis_connected]) =
     (Inr (), cache_down,
      cache_trace @ [Ext (Redis_ping 5), Log Info Redis_connected] @ cache_teardown)"
    by (simp add: RedisConnector_disconnect_eq closing_def world_defs sample_defs)
  have y: "DBConnector_disconnect calm sql_live
      (sql_trace @ [Ext (Cursor_execute 1 ''SELECT 1'' None), Ext (Cursor_close 1),
                   Log Info (Db_connected ''mysql''), Ext (Conn_cursor 0),
                   Ext (Cursor_execute 5 ''SELECT name FROM item'' (Some [])),
                   Ext (Cursor_fetchall 5), Ext (Cursor_close 5)]) =
     (Inr (), sql_session,
      sql_trace @ [Ext (Cursor_execute 1 ''SELECT 1'' None), Ext (Cursor_close 1),
                   Log Info (Db_connected ''mysql''), Ext (Conn_cursor 0),
                   Ext (Cursor_execute 5 ''SELECT name FROM item'' (Some [])),
                   Ext (Cursor_fetchall 5), Ext (Cursor_close 5)] @ sql_teardown)"
    by (simp add: DBConnector_disconnect_eq closing_def db_close_events_def world_defs
        sample_defs)
  have c: "count is_disconnect cache_teardown = 1" "count is_disconnect sql_teardown = 1"
    "redis_conn cache_live = Some 5"
    by (simp_all add: count_def is_disconnect_def sample_defs)
  from scope_disconnects_once [where w = calm and s = cache_session and t = "[]"
      and ?s1.0 = cache_live and body = "\<lambda>client. raise RedisError"
      and ?t1.0 = "cache_trace @ [Ext (Redis_ping 5), Log Info Redis_connected]"
      and r = "Inl RedisError" and ?s2.0 = cache_live
      and ?t2.0 = "cache_trace @ [Ext (Redis_ping 5), Log Info Redis_connected]"]
    calm_cache_connect b x
  have r: "RedisConnector_scope calm (\<lambda>client. raise RedisError) cache_session [] =
     (Inl RedisError, cache_down,
      cache_trace @ [Ext (Redis_ping 5), Log Info Redis_connected] @ cache_teardown)"
    by (auto simp: RedisConnector_scope_def RedisConnector_exit_def RedisConnector_enter_def
        with_stmt_def try_finally_def then_do_def get_def ret_def raise_def)
  from scope_disconnects_once [where w = calm and d = sql_session and t = "[]"
      and ?d1.0 = sql_live
      and dbody = "\<lambda>self. execute_query calm ''SELECT name FROM item'' None"
      and ?t1.0 = "sql_trace @ [Ext (Cursor_execute 1 ''SELECT 1'' None), Ext (Cursor_close 1),
                   Log Info (Db_connected ''mysql'')]"
      and q = "Inr []" and ?d2.0 = sql_live]
    calm_sql_connect calm_query y
  have d: "DBConnector_scope calm (\<lambda>self. execute_query calm ''SELECT name FROM item'' None)
       sql_session [] =
     (Inr [], sql_session,
      sql_trace @ [Ext (Cursor_execute 1 ''SELECT 1'' None), Ext (Cursor_close 1),
                   Log Info (Db_connected ''mysql''), Ext (Conn_cursor 0),
                   Ext (Cursor_execute 5 ''SELECT name FROM item'' (Some [])),
                   Ext (Cursor_fetchall 5), Ext (Cursor_close 5)] @ sql_teardown)"
    by (auto simp: DBConnector_scope_def DBConnector_exit_def DBConnector_enter_def
        with_stmt_def try_finally_def then_do_def get_def ret_def)
  from r d c calm_cache_connect calm_sql_connect show ?thesis
    by simp
qed

text \<open>The probe raises a backend error: the session is unwound and that error reaches
  the caller.\<close>

theorem connect_failure_unwinds_witness:
  "\<not> redis_is_connected cache_session \<and> redis_caught RedisError \<and>
   RedisConnector_connect_body (failing is_ping RedisError) cache_session [] =
     (Inl RedisError, cache_live\<lparr>redis_is_connected := False\<rparr>,
      cache_trace @ [Ext (Redis_ping 5)]) \<and>
   RedisConnector_connect (failing is_ping RedisError) cache_session [] =
     (Inl RedisError, cache_down,
      cache_trace @ [Ext (Redis_ping 5), Log Exception (Connect_failed RedisError)]
        @ cache_teardown) \<and>
   \<not> db_is_connected sql_session \<and> db_connect_caught PyMySQLError \<and>
   DBConnector_connect_body (failing is_execute PyMySQLError) sql_session [] =
     (Inl PyMySQLError, sql_session\<lparr>conn := Some 0\<rparr>,
      sql_trace @ [Ext (Cursor_execute 1 ''SELECT 1'' None), Ext (Cursor_close 1)]) \<and>
   DBConnector_connect (failing is_execute PyMySQLError) sql_session [] =
     (Inl PyMySQLError, sql_session,
      sql_trace @ [Ext (Cursor_execute 1 ''SELECT 1'' None), Ext (Cursor_close 1),
                   Log Exception (Connect_failed PyMySQLError)] @ sql_teardown)"
proof -
  have a: "\<not> redis_is_connected cache_session" "redis_caught RedisError"
    "\<not> db_is_connected sql_session" "db_connect_caught PyMySQLError"
    by (simp_all add: sample_defs redis_caught_def db_connect_caught_def)
  have b: "RedisConnector_connect_body (failing is_ping RedisError) cache_session [] =
     (Inl RedisError, cache_live\<lparr>redis_is_connected := False\<rparr>,
      cache_trace @ [Ext (Redis_ping 5)])"
    by (simp add: redis_defs prog_defs world_defs sample_defs kind_defs)
  have c: "DBConnector_connect_body (failing is_execute PyMySQLError) sql_session [] =
     (Inl PyMySQLError, sql_session\<lparr>conn := Some 0\<rparr>,
      sql_trace @ [Ext (Cursor_execute 1 ''SELECT 1'' None), Ext (Cursor_close 1)])"
    by (simp add: db_defs prog_defs world_defs sample_defs kind_defs)
  have x: "RedisConnector_disconnect (failing is_ping RedisError)
      (cache_live\<lparr>redis_is_connected := False\<rparr>)
      (cache_trace @ [Ext (Redis_ping 5)] @ [Log Exception (Connect_failed RedisError)]) =
     (Inr (), cache_down,
      cache_trace @ [Ext (Redis_ping 5), Log Exception (Connect_failed RedisError)]
        @ cache_teardown)"
    by (simp add: RedisConnector_disconnect_eq closing_def world_defs sample_defs kind_defs)
  have y: "DBConnector_disconnect (failing is_execute PyMySQLError)
      (sql_session\<lparr>conn := Some 0\<rparr>)
      (sql_trace @ [Ext (Cursor_execute 1 ''SELECT 1'' None), Ext (Cursor_close 1)]
         @ [Log Exception (Connect_failed PyMySQLError)]) =
     (Inr (), sql_session,
      sql_trace @ [Ext (Cursor_execute 1 ''SELECT 1'' None), Ext (Cursor_close 1),
                   Log Exception (Connect_failed PyMySQLError)] @ sql_teardown)"
    by (simp add: DBConnector_disconnect_eq closing_def db_close_events_def world_defs
        sample_defs kind_defs)
  show ?thesis
    using a b c x y
      connect_failure_unwinds [where w = "failing is_ping RedisError" and s = cache_session
        and t = "[]" and e = RedisError and ?s1.0 = "cache_live\<lparr>redis_is_connected := False\<rparr>"
        and ?t1.0 = "cache_trace @ [Ext (Redis_ping 5)]" and d = sql_live]
      connect_failure_unwinds [where w = "failing is_execute PyMySQLError" and d = sql_session
        and t = "[]" and e' = PyMySQLError and ?d1.0 = "sql_session\<lparr>conn := Some 0\<rparr>"
        and ?t1'.0 = "sql_trace @ [Ext (Cursor_execute 1 ''SELECT 1'' None), Ext (Cursor_close 1)]"
        and s = cache_live]
    by auto
qed

text \<open>
  Claim C1 as the specification states it fails on the code.  An exception of a class the
  \<open>except\<close> clause does not name, here the \<open>OSError\<close> of an unreadable key file, goes to
  the caller without \<open>disconnect\<close> being invoked; and what reaches the caller after a
  handled failure is the library's own exception (\<open>raise\<close> without argument), here
  \<open>pymysql.Error\<close>, not a \<open>ConnectionError\<close> around it.
\<close>

theorem connect_failure_counterexample:
  "RedisConnector_connect (failing is_key_load OtherException) keyed_session [] =
     (Inl OtherException, keyed_session,
      [Ext (RSAKey_from_private_key_file (PStr ''id_rsa'') PNone)]) \<and>
   count is_disconnect [Ext (RSAKey_from_private_key_file (PStr ''id_rsa'') PNone)] = 0 \<and>
   fst (DBConnector_connect (failing is_execute PyMySQLError) sql_session []) =
     Inl PyMySQLError"
  by (simp add: redis_defs db_defs prog_defs world_defs sample_defs kind_defs count_def
      is_disconnect_def)

text \<open>
  Claim C3, evaluated where the code departs from it.  The cache server answers the ping,
  but not with PONG, so \<open>ping()\<close> returns \<open>False\<close> and line 98 raises Python's
  \<open>ConnectionError\<close>.  The \<open>except\<close> clause of line 103 does not name that class, so
  \<open>disconnect\<close> is not invoked: \<open>connect\<close> raises with the client still held in
  \<open>redis_conn\<close> and the tunnel still held and running; nothing was closed or stopped.
\<close>

theorem ping_false_keeps_client_and_tunnel:
  "RedisConnector_connect no_pong cache_session [] =
     (Inl (ConnectionError Redis_ping_failed), cache_live\<lparr>redis_is_connected := False\<rparr>,
      cache_trace @ [Ext (Redis_ping 5)]) \<and>
   redis_conn (cache_live\<lparr>redis_is_connected := False\<rparr>) = Some 5 \<and>
   tunnel (cache_live\<lparr>redis_is_connected := False\<rparr>) = Some 0 \<and>
   count is_disconnect (cache_trace @ [Ext (Redis_ping 5)]) = 0 \<and>
   count is_conn_close (cache_trace @ [Ext (Redis_ping 5)]) = 0 \<and>
   count is_tunnel_stop (cache_trace @ [Ext (Redis_ping 5)]) = 0"
  by (simp add: redis_defs prog_defs world_defs no_pong_def sample_defs kind_defs count_def
      is_disconnect_def is_conn_close_def is_tunnel_stop_def)

subsection \<open>Failures while executing a statement\<close>

lemma update_block_state: "update_block w sql params s t = (r, s1, t1) \<Longrightarrow> s1 = s"
  by (auto simp: update_block_def with_cursor_def cursor_exit_def prog_defs
      split: option.splits sum.splits if_splits prod.splits)

lemma query_block_state: "query_block w sql params s t = (r, s1, t1) \<Longrightarrow> s1 = s"
  by (auto simp: query_block_def with_cursor_def cursor_exit_def fetchall_def prog_defs
      split: option.splits sum.splits if_splits prod.splits)

lemma rollback_and_reraise_eq:
  "conn s = Some h \<Longrightarrow>
   rollback_and_reraise w e s t =
     (Inl (case raises w t (Conn_rollback h) of None \<Rightarrow> e | Some e' \<Rightarrow> e'), s,
      t @ [Ext (Conn_rollback h)])"
  by (simp add: rollback_and_reraise_def prog_defs split: option.splits)

lemma execute_update_handled:
  assumes "db_is_connected s" "conn s = Some h"
    "update_block w sql params s t = (Inl e, s1, t1)" "db_query_caught e"
  shows "execute_update w sql params s t =
      (Inl (case raises w (t1 @ [Log Exception (Update_failed e sql)]) (Conn_rollback h) of
              None \<Rightarrow> e | Some e' \<Rightarrow> e'),
       s, t1 @ [Log Exception (Update_failed e sql), Ext (Conn_rollback h)])"
proof -
  from assms(3) have "s1 = s" by (rule update_block_state)
  with assms show ?thesis
    by (simp add: execute_update_def then_do_def get_def try_except_def log_def
        rollback_and_reraise_eq)
qed

lemma execute_query_handled:
  assumes "db_is_connected s" "conn s = Some h"
    "query_block w sql params s t = (Inl e, s1, t1)" "db_query_caught e"
  shows "execute_query w sql params s t =
      (Inl (case raises w (t1 @ [Log Exception (Query_failed e sql)]) (Conn_rollback h) of
              None \<Rightarrow> e | Some e' \<Rightarrow> e'),
       s, t1 @ [Log Exception (Query_failed e sql), Ext (Conn_rollback h)])"
proof -
  from assms(3) have "s1 = s" by (rule query_block_state)
  with assms show ?thesis
    by (simp add: execute_query_def then_do_def get_def try_except_def log_def
        rollback_and_reraise_eq)
qed

lemma update_block_execute_raises:
  assumes "conn s = Some h" "raises w t (Conn_cursor h) = None"
    "raises w (t @ [Ext (Conn_cursor h)])
       (Cursor_execute (length t) sql (Some (params_or_empty params))) = Some e"
  shows "\<exists>e' t1. update_block w sql params s t = (Inl e', s, t1)"
  using assms
  by (simp add: update_block_def with_cursor_def cursor_exit_def prog_defs split: option.splits)

lemma query_block_execute_raises:
  assumes "conn s = Some h" "raises w t (Conn_cursor h) = None"
    "raises w (t @ [Ext (Conn_cursor h)])
       (Cursor_execute (length t) sql (Some (params_or_empty params))) = Some e"
  shows "\<exists>e' t1. query_block w sql params s t = (Inl e', s, t1)"
  using assms
  by (simp add: query_block_def with_cursor_def cursor_exit_def prog_defs split: option.splits)

lemma execute_update_block_raises:
  assumes "update_block w sql params s t = (Inl e, s1, t1)"
  shows "\<exists>e'. fst (execute_update w sql params s t) = Inl e'"
  using assms
  by (auto simp: execute_update_def rollback_and_reraise_def prog_defs
      split: option.splits)

lemma execute_query_block_raises:
  assumes "query_block w sql params s t = (Inl e, s1, t1)"
  shows "\<exists>e'. fst (execute_query w sql params s t) = Inl e'"
  using assms
  by (auto simp: execute_query_def rollback_and_reraise_def prog_defs
      split: option.splits)

lemma update_block_execute_raises_eq:
  assumes "conn s = Some h" "raises w t (Conn_cursor h) = None"
    "raises w (t @ [Ext (Conn_cursor h)])
       (Cursor_execute (length t) sql (Some (params_or_empty params))) = Some e"
  shows "update_block w sql params s t =
     (Inl (case raises w (t @ [Ext (Conn_cursor h),
                Ext (Cursor_execute (length t) sql (Some (params_or_empty params)))])
              (Cursor_close (length t)) of None \<Rightarrow> e | Some e2 \<Rightarrow> e2),
      s,
      t @ [Ext (Conn_cursor h),
           Ext (Cursor_execute (length t) sql (Some (params_or_empty params))),
           Ext (Cursor_close (length t))])"
  using assms
  by (simp add: update_block_def with_cursor_def cursor_exit_def prog_defs split: option.splits)

lemma query_block_execute_raises_eq:
  assumes "conn s = Some h" "raises w t (Conn_cursor h) = None"
    "raises w (t @ [Ext (Conn_cursor h)])
       (Cursor_execute (length t) sql (Some (params_or_empty params))) = Some e"
  shows "query_block w sql params s t =
     (Inl (case raises w (t @ [Ext (Conn_cursor h),
                Ext (Cursor_execute (length t) sql (Some (params_or_empty params)))])
              (Cursor_close (length t)) of None \<Rightarrow> e | Some e2 \<Rightarrow> e2),
      s,
      t @ [Ext (Conn_cursor h),
           Ext (Cursor_execute (length t) sql (Some (params_or_empty params))),
           Ext (Cursor_close (length t))])"
  using assms
  by (simp add: query_block_def with_cursor_def cursor_exit_def prog_defs split: option.splits)

lemma execute_update_unhandled:
  assumes "db_is_connected s" "conn s = Some h"
    "update_block w sql params s t = (Inl e, s1, t1)" "\<not> db_query_caught e"
  shows "execute_update w sql params s t = (Inl e, s, t1)"
proof -
  from assms(3) have "s1 = s" by (rule update_block_state)
  with assms show ?thesis
    by (simp add: execute_update_def then_do_def get_def try_except_def)
qed

lemma execute_query_unhandled:
  assumes "db_is_connected s" "conn s = Some h"
    "query_block w sql params s t = (Inl e, s1, t1)" "\<not> db_query_caught e"
  shows "execute_query w sql params s t = (Inl e, s, t1)"
proof -
  from assms(3) have "s1 = s" by (rule query_block_state)
  with assms show ?thesis
    by (simp add: execute_query_def then_do_def get_def try_except_def)
qed

lemma execute_update_statement_fails:
  assumes "db_is_connected s" "conn s = Some h" "raises w t (Conn_cursor h) = None"
    "raises w (t @ [Ext (Conn_cursor h)])
       (Cursor_execute (length t) sql (Some (params_or_empty params))) = Some e"
  shows "execute_update w sql params s t =
    (let t0 = t @ [Ext (Conn_cursor h),
                   Ext (Cursor_execute (length t) sql (Some (params_or_empty params)))];
         x = (case raises w t0 (Cursor_close (length t)) of None \<Rightarrow> e | Some e2 \<Rightarrow> e2);
         t1 = t0 @ [Ext (Cursor_close (length t))]
     in if db_query_caught x
        then (Inl (case raises w (t1 @ [Log Exception (Update_failed x sql)]) (Conn_rollback h) of
                     None \<Rightarrow> x | Some e' \<Rightarrow> e'),
              s, t1 @ [Log Exception (Update_failed x sql), Ext (Conn_rollback h)])
        else (Inl x, s, t1))"
proof -
  define t0 where "t0 = t @ [Ext (Conn_cursor h),
                   Ext (Cursor_execute (length t) sql (Some (params_or_empty params)))]"
  define x where "x = (case raises w t0 (Cursor_close (length t)) of
                         None \<Rightarrow> e | Some e2 \<Rightarrow> e2)"
  have b: "update_block w sql params s t = (Inl x, s, t0 @ [Ext (Cursor_close (length t))])"
    using update_block_execute_raises_eq [OF assms(2,3,4)] by (simp add: x_def t0_def)
  have "execute_update w sql params s t =
     (if db_query_caught x
      then (Inl (case raises w ((t0 @ [Ext (Cursor_close (length t))])
                      @ [Log Exception (Update_failed x sql)]) (Conn_rollback h) of
                   None \<Rightarrow> x | Some e' \<Rightarrow> e'),
            s, (t0 @ [Ext (Cursor_close (length t))])
                 @ [Log Exception (Update_failed x sql), Ext (Conn_rollback h)])
      else (Inl x, s, t0 @ [Ext (Cursor_close (length t))]))"
    using execute_update_handled [OF assms(1,2) b] execute_update_unhandled [OF assms(1,2) b]
    by (cases "db_query_caught x") simp_all
  then show ?thesis
    unfolding Let_def x_def t0_def by simp
qed

lemma execute_query_statement_fails:
  assumes "db_is_connected s" "conn s = Some h" "raises w t (Conn_cursor h) = None"
    "raises w (t @ [Ext (Conn_cursor h)])
       (Cursor_execute (length t) sql (Some (params_or_empty params))) = Some e"
  shows "execute_query w sql params s t =
    (let t0 = t @ [Ext (Conn_cursor h),
                   Ext (Cursor_execute (length t) sql (Some (params_or_empty params)))];
         x = (case raises w t0 (Cursor_close (length t)) of None \<Rightarrow> e | Some e2 \<Rightarrow> e2);
         t1 = t0 @ [Ext (Cursor_close (length t))]
     in if db_query_caught x
        then (Inl (case raises w (t1 @ [Log Exception (Query_failed x sql)]) (Conn_rollback h) of
                     None \<Rightarrow> x | Some e' \<Rightarrow> e'),
              s, t1 @ [Log Exception (Query_failed x sql), Ext (Conn_rollback h)])
        else (Inl x, s, t1))"
proof -
  define t0 where "t0 = t @ [Ext (Conn_cursor h),
                   Ext (Cursor_execute (length t) sql (Some (params_or_empty params)))]"
  define x where "x = (case raises w t0 (Cursor_close (length t)) of
                         None \<Rightarrow> e | Some e2 \<Rightarrow> e2)"
  have b: "query_block w sql params s t = (Inl x, s, t0 @ [Ext (Cursor_close (length t))])"
    using query_block_execute_raises_eq [OF assms(2,3,4)] by (simp add: x_def t0_def)
  have "execute_query w sql params s t =
     (if db_query_caught x
      then (Inl (case raises w ((t0 @ [Ext (Cursor_close (length t))])
                      @ [Log Exception (Query_failed x sql)]) (Conn_rollback h) of
                   None \<Rightarrow> x | Some e' \<Rightarrow> e'),
            s, (t0 @ [Ext (Cursor_close (length t))])
                 @ [Log Exception (Query_failed x sql), Ext (Conn_rollback h)])
      else (Inl x, s, t0 @ [Ext (Cursor_close (length t))]))"
    using execute_query_handled [OF assms(1,2) b] execute_query_unhandled [OF assms(1,2) b]
    by (cases "db_query_caught x") simp_all
  then show ?thesis
    unfolding Let_def x_def t0_def by simp
qed

lemma update_block_no_rollback:
  "update_block w sql params s t = (r, s1, t1) \<Longrightarrow> \<exists>ev. t1 = t @ ev \<and> count is_rollback ev = 0"
  by (auto simp: update_block_def with_cursor_def cursor_exit_def prog_defs count_def
      is_rollback_def split: option.splits sum.splits if_splits prod.splits)

lemma query_block_no_rollback:
  "query_block w sql params s t = (r, s1, t1) \<Longrightarrow> \<exists>ev. t1 = t @ ev \<and> count is_rollback ev = 0"
  by (auto simp: query_block_def with_cursor_def cursor_exit_def fetchall_def prog_defs count_def
      is_rollback_def split: option.splits sum.splits if_splits prod.splits)

text \<open>
  Claim C6, as the code has it.  On a connected SQL session, when the statement execution
  inside \<open>execute_update\<close> or \<open>execute_query\<close> raises, the cursor is closed on the way
  out of the \<open>with\<close> block, and the exception that leaves the block is the statement's,
  or that of closing the cursor if that raises too.  If the exception that leaves the
  block (from the cursor, the statement, the fetch or commit, or closing the cursor) is a
  backend error, that is \<open>pymysql.Error\<close> or \<open>psycopg2.Error\<close>, the failure is logged
  with the statement text and one rollback is issued on the session's connection; if the
  rollback returns, the backend error itself is raised again, unchanged; if the rollback
  raises, its exception is the one the caller gets.  If the exception that leaves the
  block is of another class, it goes to the caller as it is, with no log line and no
  rollback.  The session is unchanged.  And whenever the statement execution raises,
  whatever the class, the call raises: neither a row count nor rows are returned.
\<close>

theorem execute_failure_rolls_back:
  "(db_is_connected s \<and> conn s = Some h \<and> update_block w sql params s t = (Inl e, s1, t1) \<and>
    db_query_caught e \<longrightarrow>
      execute_update w sql params s t =
        (Inl (case raises w (t1 @ [Log Exception (Update_failed e sql)]) (Conn_rollback h) of
                None \<Rightarrow> e | Some e' \<Rightarrow> e'),
         s, t1 @ [Log Exception (Update_failed e sql), Ext (Conn_rollback h)])) \<and>
   (db_is_connected s \<and> conn s = Some h \<and> query_block w sql params s t = (Inl e, s1, t1) \<and>
    db_query_caught e \<longrightarrow>
      execute_query w sql params s t =
        (Inl (case raises w (t1 @ [Log Exception (Query_failed e sql)]) (Conn_rollback h) of
                None \<Rightarrow> e | Some e' \<Rightarrow> e'),
         s, t1 @ [Log Exception (Query_failed e sql), Ext (Conn_rollback h)])) \<and>
   (db_is_connected s \<and> conn s = Some h \<and> update_block w sql params s t = (Inl e, s1, t1) \<and>
    \<not> db_query_caught e \<longrightarrow>
      (\<exists>ev. execute_update w sql params s t = (Inl e, s, t @ ev) \<and> t1 = t @ ev \<and>
            count is_rollback ev = 0)) \<and>
   (db_is_connected s \<and> conn s = Some h \<and> query_block w sql params s t = (Inl e, s1, t1) \<and>
    \<not> db_query_caught e \<longrightarrow>
      (\<exists>ev. execute_query w sql params s t = (Inl e, s, t @ ev) \<and> t1 = t @ ev \<and>
            count is_rollback ev = 0)) \<and>
   (db_is_connected s \<and> conn s = Some h \<and> raises w t (Conn_cursor h) = None \<and>
    raises w (t @ [Ext (Conn_cursor h)])
      (Cursor_execute (length t) sql (Some (params_or_empty params))) = Some e \<longrightarrow>
      execute_update w sql params s t =
        (let t0 = t @ [Ext (Conn_cursor h),
                       Ext (Cursor_execute (length t) sql (Some (params_or_empty params)))];
             x = (case raises w t0 (Cursor_close (length t)) of None \<Rightarrow> e | Some e2 \<Rightarrow> e2);
             t1 = t0 @ [Ext (Cursor_close (length t))]
         in if db_query_caught x
            then (Inl (case raises w (t1 @ [Log Exception (Update_failed x sql)])
                              (Conn_rollback h) of
                         None \<Rightarrow> x | Some e' \<Rightarrow> e'),
                  s, t1 @ [Log Exception (Update_failed x sql), Ext (Conn_rollback h)])
            else (Inl x, s, t1)) \<and>
      execute_query w sql params s t =
        (let t0 = t @ [Ext (Conn_cursor h),
                       Ext (Cursor_execute (length t) sql (Some (params_or_empty params)))];
             x = (case raises w t0 (Cursor_close (length t)) of None \<Rightarrow> e | Some e2 \<Rightarrow> e2);
             t1 = t0 @ [Ext (Cursor_close (length t))]
         in if db_query_caught x
            then (Inl (case raises w (t1 @ [Log Exception (Query_failed x sql)])
                              (Conn_rollback h) of
                         None \<Rightarrow> x | Some e' \<Rightarrow> e'),
                  s, t1 @ [Log Exception (Query_failed x sql), Ext (Conn_rollback h)])
            else (Inl x, s, t1))) \<and>
   (conn s = Some h \<and> raises w t (Conn_cursor h) = None \<and>
    raises w (t @ [Ext (Conn_cursor h)])
      (Cursor_execute (length t) sql (Some (params_or_empty params))) = Some e \<longrightarrow>
      (\<exists>e' t1. update_block w sql params s t = (Inl e', s, t1)) \<and>
      (\<exists>e' t1. query_block w sql params s t = (Inl e', s, t1)) \<and>
      (\<exists>e'. fst (execute_update w sql params s t) = Inl e') \<and>
      (\<exists>e'. fst (execute_query w sql params s t) = Inl e'))"
  apply (intro conjI impI)
  subgoal using execute_update_handled [of s h w sql params t e s1 t1] by blast
  subgoal using execute_query_handled [of s h w sql params t e s1 t1] by blast
  subgoal
    using execute_update_unhandled [of s h w sql params t e s1 t1]
      update_block_no_rollback [of w sql params s t "Inl e" s1 t1] by auto
  subgoal
    using execute_query_unhandled [of s h w sql params t e s1 t1]
      query_block_no_rollback [of w sql params s t "Inl e" s1 t1] by auto
  subgoal using execute_update_statement_fails [of s h w t sql params e] by blast
  subgoal using execute_query_statement_fails [of s h w t sql params e] by blast
  subgoal using update_block_execute_raises [of s h w t sql params e] by blast
  subgoal using query_block_execute_raises [of s h w t sql params e] by blast
  subgoal
    using update_block_execute_raises [of s h w t sql params e]
      execute_update_block_raises [of w sql params s t] by blast
  subgoal
    using query_block_execute_raises [of s h w t sql params e]
      execute_query_block_raises [of w sql params s t] by blast
  done

lemmas exec_defs = execute_update_def execute_query_def update_block_def query_block_def
  fetchall_def params_or_empty_def rollback_and_reraise_def with_cursor_def cursor_exit_def
  db_query_caught_def

theorem execute_failure_rolls_back_witness:
  "db_is_connected sql_live \<and> conn sql_live = Some 0 \<and> db_query_caught PyMySQLError \<and>
   \<not> db_query_caught TypeError \<and>
   raises (failing is_execute PyMySQLError) sql_trace (Conn_cursor 0) = None \<and>
   raises (failing is_execute PyMySQLError) (sql_trace @ [Ext (Conn_cursor 0)])
     (Cursor_execute (length sql_trace) ''UPDATE item SET n = 0'' (Some (params_or_empty None))) =
     Some PyMySQLError \<and>
   update_block (failing is_execute PyMySQLError) ''UPDATE item SET n = 0'' None sql_live
       sql_trace =
     (Inl PyMySQLError, sql_live,
      sql_trace @ [Ext (Conn_cursor 0), Ext (Cursor_execute 2 ''UPDATE item SET n = 0'' (Some [])),
                   Ext (Cursor_close 2)]) \<and>
   execute_update (failing is_execute PyMySQLError) ''UPDATE item SET n = 0'' None sql_live
       sql_trace =
     (Inl PyMySQLError, sql_live,
      sql_trace @ [Ext (Conn_cursor 0), Ext (Cursor_execute 2 ''UPDATE item SET n = 0'' (Some [])),
                   Ext (Cursor_close 2),
                   Log Exception (Update_failed PyMySQLError ''UPDATE item SET n = 0''),
                   Ext (Conn_rollback 0)]) \<and>
   execute_query (failing is_execute PyMySQLError) ''SELECT name FROM item'' None sql_live
       sql_trace =
     (Inl PyMySQLError, sql_live,
      sql_trace @ [Ext (Conn_cursor 0), Ext (Cursor_execute 2 ''SELECT name FROM item'' (Some [])),
                   Ext (Cursor_close 2),
                   Log Exception (Query_failed PyMySQLError ''SELECT name FROM item''),
                   Ext (Conn_rollback 0)]) \<and>
   update_block (failing is_execute TypeError) ''UPDATE item SET n = %s'' None sql_live
       sql_trace =
     (Inl TypeError, sql_live,
      sql_trace @ [Ext (Conn_cursor 0), Ext (Cursor_execute 2 ''UPDATE item SET n = %s'' (Some [])),
                   Ext (Cursor_close 2)]) \<and>
   execute_update (failing is_execute TypeError) ''UPDATE item SET n = %s'' None sql_live
       sql_trace =
     (Inl TypeError, sql_live,
      sql_trace @ [Ext (Conn_cursor 0), Ext (Cursor_execute 2 ''UPDATE item SET n = %s'' (Some [])),
                   Ext (Cursor_close 2)]) \<and>
   execute_query (failing is_execute TypeError) ''SELECT name FROM item WHERE id = %s'' None
       sql_live sql_trace =
     (Inl TypeError, sql_live,
      sql_trace @ [Ext (Conn_cursor 0),
                   Ext (Cursor_execute 2 ''SELECT name FROM item WHERE id = %s'' (Some [])),
                   Ext (Cursor_close 2)])"
proof -
  have a: "db_is_connected sql_live" "conn sql_live = Some 0" "db_query_caught PyMySQLError"
    "\<not> db_query_caught TypeError" "length sql_trace = 2"
    by (simp_all add: sample_defs db_query_caught_def)
  have r: "raises (failing is_execute PyMySQLError) tr (Conn_rollback 0) = None"
    "raises (failing is_execute PyMySQLError) tr (Conn_cursor 0) = None"
    "raises (failing is_execute PyMySQLError) tr (Cursor_close 2) = None"
    "raises (failing is_execute PyMySQLError) tr (Cursor_execute 2 q (Some [])) = Some PyMySQLError"
    "raises (failing is_execute TypeError) tr (Conn_cursor 0) = None"
    "raises (failing is_execute TypeError) tr (Cursor_close 2) = None"
    "raises (failing is_execute TypeError) tr (Cursor_execute 2 q (Some [])) = Some TypeError"
    for tr q
    by (simp_all add: world_defs kind_defs)
  have u: "update_block (failing is_execute PyMySQLError) ''UPDATE item SET n = 0'' None sql_live
       sql_trace =
     (Inl PyMySQLError, sql_live,
      sql_trace @ [Ext (Conn_cursor 0), Ext (Cursor_execute 2 ''UPDATE item SET n = 0'' (Some [])),
                   Ext (Cursor_close 2)])"
    by (simp add: exec_defs prog_defs world_defs sample_defs kind_defs)
  have q: "query_block (failing is_execute PyMySQLError) ''SELECT name FROM item'' None sql_live
       sql_trace =
     (Inl PyMySQLError, sql_live,
      sql_trace @ [Ext (Conn_cursor 0), Ext (Cursor_execute 2 ''SELECT name FROM item'' (Some [])),
                   Ext (Cursor_close 2)])"
    by (simp add: exec_defs prog_defs world_defs sample_defs kind_defs)
  have u': "update_block (failing is_execute TypeError) ''UPDATE item SET n = %s'' None sql_live
       sql_trace =
     (Inl TypeError, sql_live,
      sql_trace @ [Ext (Conn_cursor 0), Ext (Cursor_execute 2 ''UPDATE item SET n = %s'' (Some [])),
                   Ext (Cursor_close 2)])"
    by (simp add: exec_defs prog_defs world_defs sample_defs kind_defs)
  have q': "query_block (failing is_execute TypeError) ''SELECT name FROM item WHERE id = %s''
       None sql_live sql_trace =
     (Inl TypeError, sql_live,
      sql_trace @ [Ext (Conn_cursor 0),
                   Ext (Cursor_execute 2 ''SELECT name FROM item WHERE id = %s'' (Some [])),
                   Ext (Cursor_close 2)])"
    by (simp add: exec_defs prog_defs world_defs sample_defs kind_defs)
  show ?thesis
    using a u q u' q'
      execute_failure_rolls_back [where w = "failing is_execute PyMySQLError" and s = sql_live
        and h = 0 and sql = "''UPDATE item SET n = 0''" and params = None and t = sql_trace
        and e = PyMySQLError and ?s1.0 = sql_live
        and ?t1.0 = "sql_trace @ [Ext (Conn_cursor 0),
          Ext (Cursor_execute 2 ''UPDATE item SET n = 0'' (Some [])), Ext (Cursor_close 2)]"]
      execute_failure_rolls_back [where w = "failing is_execute PyMySQLError" and s = sql_live
        and h = 0 and sql = "''SELECT name FROM item''" and params = None and t = sql_trace
        and e = PyMySQLError and ?s1.0 = sql_live
        and ?t1.0 = "sql_trace @ [Ext (Conn_cursor 0),
          Ext (Cursor_execute 2 ''SELECT name FROM item'' (Some [])), Ext (Cursor_close 2)]"]
      execute_failure_rolls_back [where w = "failing is_execute TypeError" and s = sql_live
        and h = 0 and sql = "''UPDATE item SET n = %s''" and params = None and t = sql_trace
        and e = TypeError and ?s1.0 = sql_live
        and ?t1.0 = "sql_trace @ [Ext (Conn_cursor 0),
          Ext (Cursor_execute 2 ''UPDATE item SET n = %s'' (Some [])), Ext (Cursor_close 2)]"]
      execute_failure_rolls_back [where w = "failing is_execute TypeError" and s = sql_live
        and h = 0 and sql = "''SELECT name FROM item WHERE id = %s''" and params = None
        and t = sql_trace and e = TypeError and ?s1.0 = sql_live
        and ?t1.0 = "sql_trace @ [Ext (Conn_cursor 0),
          Ext (Cursor_execute 2 ''SELECT name FROM item WHERE id = %s'' (Some [])),
          Ext (Cursor_close 2)]"]
    by (simp add: r params_or_empty_def)
qed

text \<open>
  Claim C6 as the specification states it fails on the code.  When the rollback fails too,
  its exception replaces the backend error of the statement (the rollback is not
  guarded, and nothing is logged about it).  An exception that is no backend error,
  here the \<open>TypeError\<close> of a parameter that does not fit the statement, goes to the caller
  without a rollback.  And when the statement fails with a backend error but closing the
  cursor then fails with an error of another class, that second error is what leaves the
  block: nothing is logged and nothing is rolled back.
\<close>

theorem execute_failure_counterexample:
  "execute_update broken_link ''UPDATE item SET n = 0'' None sql_live sql_trace =
     (Inl OtherException, sql_live,
      sql_trace @ [Ext (Conn_cursor 0), Ext (Cursor_execute 2 ''UPDATE item SET n = 0'' (Some [])),
                   Ext (Cursor_close 2),
                   Log Exception (Update_failed PyMySQLError ''UPDATE item SET n = 0''),
                   Ext (Conn_rollback 0)]) \<and>
   execute_query (failing is_execute TypeError) ''SELECT name FROM item WHERE id = %s'' None
       sql_live sql_trace =
     (Inl TypeError, sql_live,
      sql_trace @ [Ext (Conn_cursor 0),
                   Ext (Cursor_execute 2 ''SELECT name FROM item WHERE id = %s'' (Some [])),
                   Ext (Cursor_close 2)]) \<and>
   count is_rollback
     (sql_trace @ [Ext (Conn_cursor 0),
                   Ext (Cursor_execute 2 ''SELECT name FROM item WHERE id = %s'' (Some [])),
                   Ext (Cursor_close 2)]) = 0 \<and>
   execute_update broken_cursor ''UPDATE item SET n = 0'' None sql_live sql_trace =
     (Inl OtherException, sql_live,
      sql_trace @ [Ext (Conn_cursor 0), Ext (Cursor_execute 2 ''UPDATE item SET n = 0'' (Some [])),
                   Ext (Cursor_close 2)]) \<and>
   count is_rollback
     (sql_trace @ [Ext (Conn_cursor 0), Ext (Cursor_execute 2 ''UPDATE item SET n = 0'' (Some [])),
                   Ext (Cursor_close 2)]) = 0"
  by (simp add: exec_defs prog_defs world_defs broken_link_def broken_cursor_def sample_defs
      kind_defs count_def is_rollback_def)

subsection \<open>MySQL.execute\<close>

lemmas mysql_defs = MySQL_execute_def MySQL_connect_def MySQL_close_def on_cursor_def on_conn_def
  fetchall_def

lemma MySQL_execute_returns:
  assumes "MySQL_execute w sql params s t = (Inr v, s', t')"
  shows "(let h = length t; c = Suc (length t);
            t4 = t @ [Ext (pymysql_connect_of s), Ext (Conn_cursor h),
                      Ext (Cursor_execute c sql params), Ext (Conn_commit h)]
        in if is_insert sql
           then v = Last_row_id (int_of w t4 (Cursor_lastrowid c)) \<and>
                t' = t4 @ [Ext (Cursor_close c), Ext (Conn_close h)]
           else v = Rows (rows_of w (t4 @ [Ext (Cursor_fetchall c)]) (Cursor_fetchall c)) \<and>
                t' = t4 @ [Ext (Cursor_fetchall c), Ext (Cursor_close c), Ext (Conn_close h)])"
  using assms
  by (auto simp: mysql_defs prog_defs pymysql_connect_of_def Let_def
      split: option.splits if_splits)

lemma MySQL_execute_total:
  assumes "\<forall>u c. raises w u c = None"
  shows "\<exists>v s' t'. MySQL_execute w sql params s t = (Inr v, s', t')"
  using assms
  by (simp add: mysql_defs prog_defs)

lemma MySQL_execute_closes:
  assumes "\<forall>u c. raises w u (Cursor_close c) = None"
    and "raises w t (pymysql_connect_of s) = None"
    and "MySQL_execute w sql params s t = (r, s', t')"
  shows "(\<exists>ev. t' = t @ ev @ [Ext (Conn_close (length t))]) \<and>
         (raises w (t @ [Ext (pymysql_connect_of s)]) (Conn_cursor (length t)) = None \<longrightarrow>
            (\<exists>ev. t' = t @ ev @ [Ext (Cursor_close (Suc (length t))),
                                  Ext (Conn_close (length t))]))"
  using assms
  by (auto simp: mysql_defs prog_defs pymysql_connect_of_def
      split: option.splits if_splits)


text \<open>
  Claim C10, as the code has it.  When \<open>MySQL.execute\<close> returns a value, it has connected,
  created a cursor, executed the statement and committed; the value is the cursor's
  \<open>lastrowid\<close> when the stripped, lowered statement starts with \<open>insert into\<close> (and then
  nothing is fetched), and the result of \<open>fetchall()\<close> otherwise; cursor and connection
  are closed, in that order, as the last things done.  Where no library call raises, it
  does return.  On every path on which closing a cursor does not raise, returning or
  raising, the connection the call opened is closed as the last thing before the call
  is left, and the cursor it opened right before that.
\<close>

theorem MySQL_execute_result_and_close:
  "(MySQL_execute w sql params s t = (Inr v, s', t') \<longrightarrow>
      (let h = length t; c = Suc (length t);
           t4 = t @ [Ext (pymysql_connect_of s), Ext (Conn_cursor h),
                     Ext (Cursor_execute c sql params), Ext (Conn_commit h)]
       in if is_insert sql
          then v = Last_row_id (int_of w t4 (Cursor_lastrowid c)) \<and>
               t' = t4 @ [Ext (Cursor_close c), Ext (Conn_close h)]
          else v = Rows (rows_of w (t4 @ [Ext (Cursor_fetchall c)]) (Cursor_fetchall c)) \<and>
               t' = t4 @ [Ext (Cursor_fetchall c), Ext (Cursor_close c), Ext (Conn_close h)])) \<and>
   ((\<forall>u c. raises w u c = None) \<longrightarrow>
      (\<exists>v s' t'. MySQL_execute w sql params s t = (Inr v, s', t'))) \<and>
   ((\<forall>u c. raises w u (Cursor_close c) = None) \<and> raises w t (pymysql_connect_of s) = None \<and>
    MySQL_execute w sql params s t = (r, s', t') \<longrightarrow>
      (\<exists>ev. t' = t @ ev @ [Ext (Conn_close (length t))]) \<and>
      (raises w (t @ [Ext (pymysql_connect_of s)]) (Conn_cursor (length t)) = None \<longrightarrow>
         (\<exists>ev. t' = t @ ev @ [Ext (Cursor_close (Suc (length t))),
                               Ext (Conn_close (length t))])))"
  using MySQL_execute_returns [of w sql params s t v s' t']
    MySQL_execute_total [of w sql params s t]
    MySQL_execute_closes [of w t s sql params r s' t']
  by blast

theorem MySQL_execute_result_and_close_witness:
  "MySQL_execute calm '' INSERT INTO item VALUES (1)'' None shop_db [] =
     (Inr (Last_row_id 1), shop_db\<lparr>my_conn := Some 0, my_cursor := Some 1\<rparr>,
      [Ext (pymysql_connect_of shop_db), Ext (Conn_cursor 0),
       Ext (Cursor_execute 1 '' INSERT INTO item VALUES (1)'' None), Ext (Conn_commit 0),
       Ext (Cursor_close 1), Ext (Conn_close 0)]) \<and>
   MySQL_execute calm ''SELECT name FROM item'' None shop_db [] =
     (Inr (Rows []), shop_db\<lparr>my_conn := Some 0, my_cursor := Some 1\<rparr>,
      [Ext (pymysql_connect_of shop_db), Ext (Conn_cursor 0),
       Ext (Cursor_execute 1 ''SELECT name FROM item'' None), Ext (Conn_commit 0),
       Ext (Cursor_fetchall 1), Ext (Cursor_close 1), Ext (Conn_close 0)]) \<and>
   MySQL_execute (failing is_execute PyMySQLError) ''SELECT name FROM item'' None shop_db [] =
     (Inl PyMySQLError, shop_db\<lparr>my_conn := Some 0, my_cursor := Some 1\<rparr>,
      [Ext (pymysql_connect_of shop_db), Ext (Conn_cursor 0),
       Ext (Cursor_execute 1 ''SELECT name FROM item'' None), Ext (Conn_rollback 0),
       Ext (Cursor_close 1), Ext (Conn_close 0)])"
proof -
  have i: "is_insert '' INSERT INTO item VALUES (1)''" "\<not> is_insert ''SELECT name FROM item''"
    by code_simp+
  have n: "\<forall>u c. raises calm u c = None"
    "\<forall>u c. raises (failing is_execute PyMySQLError) u (Cursor_close c) = None"
    "raises (failing is_execute PyMySQLError) [] (pymysql_connect_of shop_db) = None"
    by (simp_all add: world_defs kind_defs pymysql_connect_of_def)
  have a: "MySQL_execute calm '' INSERT INTO item VALUES (1)'' None shop_db [] =
     (Inr (Last_row_id 1), shop_db\<lparr>my_conn := Some 0, my_cursor := Some 1\<rparr>,
      [Ext (pymysql_connect_of shop_db), Ext (Conn_cursor 0),
       Ext (Cursor_execute 1 '' INSERT INTO item VALUES (1)'' None), Ext (Conn_commit 0),
       Ext (Cursor_close 1), Ext (Conn_close 0)])"
    by (simp add: mysql_defs prog_defs world_defs i pymysql_connect_of_def)
  have b: "MySQL_execute calm ''SELECT name FROM item'' None shop_db [] =
     (Inr (Rows []), shop_db\<lparr>my_conn := Some 0, my_cursor := Some 1\<rparr>,
      [Ext (pymysql_connect_of shop_db), Ext (Conn_cursor 0),
       Ext (Cursor_execute 1 ''SELECT name FROM item'' None), Ext (Conn_commit 0),
       Ext (Cursor_fetchall 1), Ext (Cursor_close 1), Ext (Conn_close 0)])"
    by (simp add: mysql_defs prog_defs world_defs i pymysql_connect_of_def)
  have c: "MySQL_execute (failing is_execute PyMySQLError) ''SELECT name FROM item'' None
      shop_db [] =
     (Inl PyMySQLError, shop_db\<lparr>my_conn := Some 0, my_cursor := Some 1\<rparr>,
      [Ext (pymysql_connect_of shop_db), Ext (Conn_cursor 0),
       Ext (Cursor_execute 1 ''SELECT name FROM item'' None), Ext (Conn_rollback 0),
       Ext (Cursor_close 1), Ext (Conn_close 0)])"
    by (simp add: mysql_defs prog_defs world_defs kind_defs i pymysql_connect_of_def)
  show ?thesis
    using a b c n
      MySQL_execute_result_and_close [where w = calm and s = shop_db and t = "[]"
        and sql = "'' INSERT INTO item VALUES (1)''" and params = None]
      MySQL_execute_result_and_close [where w = "failing is_execute PyMySQLError"
        and s = shop_db and t = "[]" and sql = "''SELECT name FROM item''" and params = None]
    by simp
qed

text \<open>
  Claim C10 as stated fails on the code where closing the cursor raises: \<open>close\<close>
  (lines 28 to 33) has no guard, so the connection opened by the call is never closed.
\<close>

theorem MySQL_execute_counterexample:
  "MySQL_execute (failing is_cursor_close PyMySQLError) ''SELECT name FROM item'' None
      shop_db [] =
     (Inl PyMySQLError, shop_db\<lparr>my_conn := Some 0, my_cursor := Some 1\<rparr>,
      [Ext (pymysql_connect_of shop_db), Ext (Conn_cursor 0),
       Ext (Cursor_execute 1 ''SELECT name FROM item'' None), Ext (Conn_commit 0),
       Ext (Cursor_fetchall 1), Ext (Cursor_close 1)]) \<and>
   count is_conn_close
     [Ext (pymysql_connect_of shop_db), Ext (Conn_cursor 0),
      Ext (Cursor_execute 1 ''SELECT name FROM item'' None), Ext (Conn_commit 0),
      Ext (Cursor_fetchall 1), Ext (Cursor_close 1)] = 0"
proof -
  have i: "\<not> is_insert ''SELECT name FROM item''"
    by code_simp
  show ?thesis
    by (simp add: mysql_defs prog_defs world_defs kind_defs i pymysql_connect_of_def
        shop_db_def count_def is_conn_close_def)
qed

end
